theory Spec2Isabelle
  imports Complex_Main
begin

section \<open>Shared data: landmarks, frames and errors\<close>

text \<open>
  The JavaScript numbers of the source are modelled as real numbers (coordinates, depths,
  velocities) and as integers (grid indices, millisecond clock readings); rounding of
  IEEE doubles is outside the model. A landmark delivered by the hand tracker is an
  object with fields x, y and z; a z that is missing (undefined) is \<open>None\<close>.
  Reading a field of \<open>undefined\<close> throws a TypeError in JavaScript, and
  indexing an array out of range yields \<open>undefined\<close>: both are written out.
\<close>

datatype error = TypeError

record Landmark =
  lm_x :: real
  lm_y :: real
  lm_z :: "real option"

record Handedness =
  label :: string

record Results =
  multiHandLandmarks :: "Landmark list list option"
  multiHandedness :: "Handedness list option"

text \<open>JavaScript array indexing \<open>a[i]\<close>: \<open>undefined\<close> out of range.\<close>

definition js_index :: "'a list \<Rightarrow> nat \<Rightarrow> 'a option" where
  "js_index xs i = (if i < length xs then Some (xs ! i) else None)"

section \<open>Grid classifier\<close>

text \<open>The keys of the \<open>stances\<close> table of the 2D renderer.\<close>

datatype Stance =
  idle | guard | guardLeft | guardRight | jabLeft | jabRight | hookLeft | hookRight
  | uppercutLeft | uppercutRight | duckLeft | duckRight | blockBody

record GridPos =
  row :: int
  col :: int

text \<open>
  The conversion of a hand position to a grid cell inside \<open>onResults\<close>; the three
  versions of the camera module differ only in the constant \<open>GRID_ROWS\<close> (3, 4, 6).
\<close>

definition gridPos :: "int \<Rightarrow> real \<Rightarrow> real \<Rightarrow> GridPos" where
  "gridPos GRID_ROWS handX handY =
     (let gridCol = (if handX < 0.5 then 1 else 0);
          gridRow = \<lfloor>handY * of_int GRID_ROWS\<rfloor>;
          clampedRow = max 0 (min (GRID_ROWS - 1) gridRow)
      in \<lparr>row = clampedRow, col = gridCol\<rparr>)"

text \<open>
  The loop of \<open>onResults\<close> over the detected hands. The accumulator is the pair
  (leftHandGrid, rightHandGrid), both reset to null before the loop.
\<close>

fun gridLoop :: "int \<Rightarrow> Landmark list list \<Rightarrow> Handedness list \<Rightarrow> nat
    \<Rightarrow> GridPos option \<times> GridPos option \<Rightarrow> error + GridPos option \<times> GridPos option" where
  "gridLoop GRID_ROWS [] mh i acc = Inr acc"
| "gridLoop GRID_ROWS (landmarks # rest) mh i (leftHandGrid, rightHandGrid) =
     (case (js_index landmarks 0, js_index landmarks 9) of
        (Some wrist, Some middleMCP) \<Rightarrow>
          (let handX = (lm_x wrist + lm_x middleMCP) / 2;
               handY = (lm_y wrist + lm_y middleMCP) / 2;
               gp = gridPos GRID_ROWS handX handY
           in case js_index mh i of
                None \<Rightarrow> Inl TypeError
              | Some handedness \<Rightarrow>
                  if label handedness = ''Right''
                  then gridLoop GRID_ROWS rest mh (i + 1) (Some gp, rightHandGrid)
                  else gridLoop GRID_ROWS rest mh (i + 1) (leftHandGrid, Some gp))
      | _ \<Rightarrow> Inl TypeError)"

definition handGrids :: "int \<Rightarrow> Results \<Rightarrow> error + GridPos option \<times> GridPos option" where
  "handGrids GRID_ROWS results =
     (case (multiHandLandmarks results, multiHandedness results) of
        (Some mhl, Some mh) \<Rightarrow> gridLoop GRID_ROWS mhl mh 0 (None, None)
      | _ \<Rightarrow> Inr (None, None))"

subsection \<open>camera.js: the 3 x 2 grid\<close>

fun detectStance :: "GridPos option \<Rightarrow> GridPos option \<Rightarrow> Stance" where
  "detectStance None None = idle"
| "detectStance (Some lg) (Some rg) =
     (if row lg = 0 \<and> row rg = 0 then
        (if col lg = 0 \<and> col rg = 0 then guardLeft
         else if col lg = 1 \<and> col rg = 1 then guardRight
         else guard)
      else if row lg = 2 \<and> row rg = 2 then
        (if col lg = 0 \<or> col rg = 0 then duckLeft else duckRight)
      else if row lg = 1 \<and> row rg = 1 then blockBody
      else if row lg = 0 \<and> row rg \<ge> 1 then jabLeft
      else if row rg = 0 \<and> row lg \<ge> 1 then jabRight
      else guard)"
| "detectStance (Some lg) None =
     (if row lg = 0 then jabLeft
      else if row lg = 1 then (if col lg = 0 then hookLeft else blockBody)
      else duckLeft)"
| "detectStance None (Some rg) =
     (if row rg = 0 then jabRight
      else if row rg = 1 then (if col rg = 1 then hookRight else blockBody)
      else duckRight)"

definition onResults :: "Results \<Rightarrow> error + Stance" where
  "onResults results =
     (case handGrids 3 results of
        Inl e \<Rightarrow> Inl e
      | Inr (lg, rg) \<Rightarrow> Inr (detectStance lg rg))"

subsection \<open>The camera module with the 4 x 4 grid\<close>

fun detectStance4x4 :: "GridPos option \<Rightarrow> GridPos option \<Rightarrow> Stance" where
  "detectStance4x4 None None = idle"
| "detectStance4x4 (Some lg) (Some rg) =
     (let bothTop = (row lg \<le> 1 \<and> row rg \<le> 1);
          bothBottom = (row lg \<ge> 3 \<and> row rg \<ge> 3);
          bothMiddle = (row lg = 2 \<and> row rg = 2);
          leftSide = (col lg \<le> 1 \<and> col rg \<le> 1);
          rightSide = (col lg \<ge> 2 \<and> col rg \<ge> 2)
      in if bothTop then
           (if leftSide then guardLeft else if rightSide then guardRight else guard)
         else if bothBottom then (if col lg \<le> 1 then duckLeft else duckRight)
         else if bothMiddle then blockBody
         else if row lg \<le> 1 \<and> row rg \<ge> 2 then jabLeft
         else if row rg \<le> 1 \<and> row lg \<ge> 2 then jabRight
         else guard)"
| "detectStance4x4 (Some lg) None =
     (if row lg \<le> 1 then jabLeft
      else if row lg = 2 then (if col lg \<le> 1 then hookLeft else blockBody)
      else duckLeft)"
| "detectStance4x4 None (Some rg) =
     (if row rg \<le> 1 then jabRight
      else if row rg = 2 then (if col rg \<ge> 2 then hookRight else blockBody)
      else duckRight)"

definition onResults4x4 :: "Results \<Rightarrow> error + Stance" where
  "onResults4x4 results =
     (case handGrids 4 results of
        Inl e \<Rightarrow> Inl e
      | Inr (lg, rg) \<Rightarrow> Inr (detectStance4x4 lg rg))"

subsection \<open>The camera module with the fine 4 x 6 grid\<close>

definition getLogicalRow :: "int \<Rightarrow> int" where
  "getLogicalRow r = \<lfloor>(of_int r :: real) / 2\<rfloor>"

definition getLogicalCol :: "int \<Rightarrow> int" where
  "getLogicalCol c = \<lfloor>(of_int c :: real) / 2\<rfloor>"

fun detectStance4x6 :: "GridPos option \<Rightarrow> GridPos option \<Rightarrow> Stance" where
  "detectStance4x6 None None = idle"
| "detectStance4x6 (Some lg) (Some rg) =
     (let lgRow = getLogicalRow (row lg); lgCol = getLogicalCol (col lg);
          rgRow = getLogicalRow (row rg); rgCol = getLogicalCol (col rg)
      in if lgRow = 0 \<and> rgRow = 0 then
           (if lgCol = 0 \<and> rgCol = 0 then guardLeft
            else if lgCol = 1 \<and> rgCol = 1 then guardRight
            else guard)
         else if lgRow = 2 \<and> rgRow = 2 then (if lgCol = 0 then duckLeft else duckRight)
         else if lgRow = 1 \<and> rgRow = 1 then blockBody
         else if lgRow = 0 \<and> rgRow \<ge> 1 then jabLeft
         else if rgRow = 0 \<and> lgRow \<ge> 1 then jabRight
         else guard)"
| "detectStance4x6 (Some lg) None =
     (let lgRow = getLogicalRow (row lg); lgCol = getLogicalCol (col lg)
      in if lgRow = 0 then jabLeft
         else if lgRow = 1 then (if lgCol = 0 then hookLeft else blockBody)
         else duckLeft)"
| "detectStance4x6 None (Some rg) =
     (let rgRow = getLogicalRow (row rg); rgCol = getLogicalCol (col rg)
      in if rgRow = 0 then jabRight
         else if rgRow = 1 then (if rgCol = 1 then hookRight else blockBody)
         else duckRight)"

definition onResults4x6 :: "Results \<Rightarrow> error + Stance" where
  "onResults4x6 results =
     (case handGrids 6 results of
        Inl e \<Rightarrow> Inl e
      | Inr (lg, rg) \<Rightarrow> Inr (detectStance4x6 lg rg))"

section \<open>Hand depth tracker (depthSensor.js)\<close>

definition REFERENCE_HAND_SIZE :: real where "REFERENCE_HAND_SIZE = 0.15"
definition DEPTH_SMOOTHING :: real where "DEPTH_SMOOTHING = 0.7"
definition VELOCITY_THRESHOLD :: real where "VELOCITY_THRESHOLD = 0.006"
definition PUNCH_COOLDOWN :: int where "PUNCH_COOLDOWN = 80"

record Position =
  pos_x :: real
  pos_y :: real
  pos_z :: real

text \<open>
  The hand state object. Its scalar fields are held in the object itself; the two
  history arrays and the position are separate JavaScript objects that the hand state
  refers to. The record is therefore parametric: with the arrays and the position held
  by value it is the state the tracker computes with (\<open>HandState\<close>), with references
  in their place it is the object as it lies in memory (\<open>HandObj\<close>, below).
\<close>

record ('h, 'p) HandStateOf =
  depth :: real
  smoothedDepth :: real
  rawPalmZ :: real
  scaleDepth :: real
  rawCombinedDepth :: real
  depthHistory :: 'h
  velocityHistory :: 'h
  historyMaxLength :: nat
  velocityHistoryMaxLength :: nat
  velocity :: real
  scale :: real
  isPunching :: bool
  punchStartTime :: int
  lastPunchTime :: int
  punchPower :: real
  position :: 'p
  isFist :: bool

type_synonym HandState = "(real list, Position) HandStateOf"

definition createHandState :: HandState where
  "createHandState =
     \<lparr>depth = 0, smoothedDepth = 0, rawPalmZ = 0, scaleDepth = 0, rawCombinedDepth = 0,
      depthHistory = [], velocityHistory = [], historyMaxLength = 5,
      velocityHistoryMaxLength = 50, velocity = 0, scale = REFERENCE_HAND_SIZE,
      isPunching = False, punchStartTime = 0, lastPunchTime = 0, punchPower = 0,
      position = \<lparr>pos_x = 0, pos_y = 0, pos_z = 0\<rparr>, isFist = False\<rparr>"

text \<open>\<open>p.z || 0\<close>: a missing z counts as 0.\<close>

definition z_or_0 :: "Landmark \<Rightarrow> real" where
  "z_or_0 p = (case lm_z p of None \<Rightarrow> 0 | Some v \<Rightarrow> v)"

definition calculateHandScale :: "Landmark list \<Rightarrow> error + real" where
  "calculateHandScale landmarks =
     (case (js_index landmarks 0, js_index landmarks 9) of
        (Some wrist, Some middleMCP) \<Rightarrow>
          (let dx = lm_x middleMCP - lm_x wrist;
               dy = lm_y middleMCP - lm_y wrist;
               dz = z_or_0 middleMCP - z_or_0 wrist
           in Inr (sqrt (dx * dx + dy * dy + dz * dz)))
      | _ \<Rightarrow> Inl TypeError)"

text \<open>The \<open>for ... of\<close> loop of \<open>calculatePalmDepth\<close> over the palm indices.\<close>

fun sumPalmZ :: "Landmark list \<Rightarrow> nat list \<Rightarrow> real \<Rightarrow> error + real" where
  "sumPalmZ landmarks [] totalZ = Inr totalZ"
| "sumPalmZ landmarks (idx # rest) totalZ =
     (case js_index landmarks idx of
        None \<Rightarrow> Inl TypeError
      | Some p \<Rightarrow> sumPalmZ landmarks rest (totalZ + z_or_0 p))"

definition palmIndices :: "nat list" where
  "palmIndices = [0, 1, 5, 9, 13, 17]"

definition calculatePalmDepth :: "Landmark list \<Rightarrow> error + real" where
  "calculatePalmDepth landmarks =
     (case sumPalmZ landmarks palmIndices 0 of
        Inl e \<Rightarrow> Inl e
      | Inr totalZ \<Rightarrow> Inr (totalZ / real (length palmIndices)))"

definition calculateHandCenter :: "Landmark list \<Rightarrow> error + Position" where
  "calculateHandCenter landmarks =
     (case (js_index landmarks 0, js_index landmarks 5, js_index landmarks 17) of
        (Some wrist, Some indexMCP, Some pinkyMCP) \<Rightarrow>
          Inr \<lparr>pos_x = (lm_x wrist + lm_x indexMCP + lm_x pinkyMCP) / 3,
               pos_y = (lm_y wrist + lm_y indexMCP + lm_y pinkyMCP) / 3,
               pos_z = (z_or_0 wrist + z_or_0 indexMCP + z_or_0 pinkyMCP) / 3\<rparr>
      | _ \<Rightarrow> Inl TypeError)"

text \<open>
  The loop of \<open>detectFist\<close> over the four (fingertip, MCP) index pairs; the
  wrist is \<open>landmarks[0]\<close>, read before the loop and dereferenced inside it.
\<close>

fun countCurled :: "Landmark list \<Rightarrow> (nat \<times> nat) list \<Rightarrow> nat \<Rightarrow> error + nat" where
  "countCurled landmarks [] curledFingers = Inr curledFingers"
| "countCurled landmarks ((tipIdx, mcpIdx) # rest) curledFingers =
     (case (js_index landmarks tipIdx, js_index landmarks mcpIdx, js_index landmarks 0) of
        (Some tip, Some mcp, Some wrist) \<Rightarrow>
          (let tipToWrist = sqrt ((lm_x tip - lm_x wrist)\<^sup>2 + (lm_y tip - lm_y wrist)\<^sup>2);
               mcpToWrist = sqrt ((lm_x mcp - lm_x wrist)\<^sup>2 + (lm_y mcp - lm_y wrist)\<^sup>2)
           in countCurled landmarks rest
                (if tipToWrist < mcpToWrist * 1.3 then curledFingers + 1 else curledFingers))
      | _ \<Rightarrow> Inl TypeError)"

definition fingerTips :: "nat list" where "fingerTips = [8, 12, 16, 20]"
definition fingerMCPs :: "nat list" where "fingerMCPs = [5, 9, 13, 17]"

definition detectFist :: "Landmark list \<Rightarrow> error + bool" where
  "detectFist landmarks =
     (case countCurled landmarks (zip fingerTips fingerMCPs) 0 of
        Inl e \<Rightarrow> Inl e
      | Inr curledFingers \<Rightarrow> Inr (curledFingers \<ge> 3))"

record PunchEvent =
  ev_hand :: string
  ev_power :: real
  ev_position :: Position
  ev_velocity :: real
  ev_isFist :: bool

text \<open>\<open>xs.push(v); if (xs.length > maxLength) xs.shift()\<close>\<close>

definition pushShift :: "real list \<Rightarrow> real \<Rightarrow> nat \<Rightarrow> real list" where
  "pushShift xs v maxLength =
     (let ys = xs @ [v] in if length ys > maxLength then tl ys else ys)"

text \<open>
  The first half of \<open>processHand\<close>, from the depth combination to the assignment
  of position, scale and depth; it runs once the three estimates have been computed.
\<close>

definition updateDepth :: "real \<Rightarrow> real \<Rightarrow> Position \<Rightarrow> HandState \<Rightarrow> HandState" where
  "updateDepth palmDepth handScale pos handState =
     (let scaleDepth' = - (handScale - REFERENCE_HAND_SIZE) / REFERENCE_HAND_SIZE;
          rawDepth = (palmDepth * 0.6 + scaleDepth' * 0.4) * 1.5;
          smoothed = smoothedDepth handState * (1 - DEPTH_SMOOTHING) + rawDepth * DEPTH_SMOOTHING;
          hist = pushShift (depthHistory handState) smoothed (historyMaxLength handState);
          len = length hist;
          vel = (if len \<ge> 2 then hist ! (len - 1) - hist ! (len - 2) else velocity handState);
          vhist = pushShift (velocityHistory handState) vel (velocityHistoryMaxLength handState)
      in handState\<lparr>rawPalmZ := palmDepth, scaleDepth := scaleDepth',
           rawCombinedDepth := rawDepth, smoothedDepth := smoothed, depthHistory := hist,
           velocity := vel, velocityHistory := vhist, position := pos, scale := handScale,
           depth := smoothed\<rparr>)"

text \<open>
  The second half of \<open>processHand\<close>: punch onset and punch offset. The flag
  \<open>cb\<close> says whether a callback is registered in \<open>onPunchDetected\<close>; the list
  returned holds the events handed to it. \<open>now\<close> is the reading of \<open>Date.now()\<close>.
\<close>

definition detectPunch :: "bool \<Rightarrow> int \<Rightarrow> string \<Rightarrow> Position \<Rightarrow> HandState
    \<Rightarrow> HandState \<times> PunchEvent list" where
  "detectPunch cb now handName pos handState =
     (let timeSinceLastPunch = now - lastPunchTime handState;
          onset = (\<not> isPunching handState \<and> velocity handState < - VELOCITY_THRESHOLD
                   \<and> timeSinceLastPunch > PUNCH_COOLDOWN);
          s1 = (if onset
                then handState\<lparr>isPunching := True, punchStartTime := now,
                       punchPower := min 1 (\<bar>velocity handState\<bar> / (VELOCITY_THRESHOLD * 2))\<rparr>
                else handState);
          evs = (if onset \<and> cb
                 then [\<lparr>ev_hand = handName, ev_power = punchPower s1, ev_position = pos,
                        ev_velocity = velocity s1, ev_isFist = isFist s1\<rparr>]
                 else []);
          s2 = (if isPunching s1 \<and> velocity s1 > - VELOCITY_THRESHOLD * 0.3
                then s1\<lparr>isPunching := False, lastPunchTime := now\<rparr>
                else s1)
      in (s2, evs))"

text \<open>
  \<open>processHand\<close> mutates the hand state object in place, so a TypeError thrown by
  \<open>detectFist\<close> leaves the depth update behind: the error case carries the state
  as it stands when the exception leaves the function.
\<close>

definition processHand :: "bool \<Rightarrow> int \<Rightarrow> Landmark list \<Rightarrow> HandState \<Rightarrow> string
    \<Rightarrow> error \<times> HandState + HandState \<times> PunchEvent list" where
  "processHand cb now landmarks handState handName =
     (case calculatePalmDepth landmarks of
        Inl e \<Rightarrow> Inl (e, handState)
      | Inr palmDepth \<Rightarrow>
     (case calculateHandScale landmarks of
        Inl e \<Rightarrow> Inl (e, handState)
      | Inr handScale \<Rightarrow>
     (case calculateHandCenter landmarks of
        Inl e \<Rightarrow> Inl (e, handState)
      | Inr pos \<Rightarrow>
     (let s1 = updateDepth palmDepth handScale pos handState
      in case detectFist landmarks of
           Inl e \<Rightarrow> Inl (e, s1)
         | Inr fist \<Rightarrow> Inr (detectPunch cb now handName pos (s1\<lparr>isFist := fist\<rparr>))))))"

text \<open>The module state: the two hand states and whether a punch callback is set.\<close>

record 'hs TrackerOf =
  leftHandState :: 'hs
  rightHandState :: 'hs
  onPunchDetected :: bool

type_synonym Tracker = "HandState TrackerOf"

record 'a Sides =
  left :: 'a
  right :: 'a

definition initialTracker :: Tracker where
  "initialTracker =
     \<lparr>leftHandState = createHandState, rightHandState = createHandState,
      onPunchDetected = False\<rparr>"

text \<open>
  The loop of \<open>update\<close> over the hands of one frame. The accumulator holds the
  module state, the flags leftDetected and rightDetected and the events emitted so far.
  A TypeError leaves the loop with the module state as mutated up to that point.
  \<open>now\<close> is the clock of the tick: the calls of \<open>Date.now()\<close> made while one
  frame is processed are taken to read the same millisecond.
\<close>

fun updateLoop :: "int \<Rightarrow> Landmark list list \<Rightarrow> Handedness list \<Rightarrow> nat
    \<Rightarrow> Tracker \<times> bool \<times> bool \<times> PunchEvent list
    \<Rightarrow> error \<times> Tracker \<times> PunchEvent list + Tracker \<times> bool \<times> bool \<times> PunchEvent list" where
  "updateLoop now [] mh i acc = Inr acc"
| "updateLoop now (landmarks # rest) mh i (t, leftDetected, rightDetected, evs) =
     (case js_index mh i of
        None \<Rightarrow> Inl (TypeError, t, evs)
      | Some handedness \<Rightarrow>
          if label handedness = ''Right'' then
            (case processHand (onPunchDetected t) now landmarks (leftHandState t) ''left'' of
               Inl (e, s) \<Rightarrow> Inl (e, t\<lparr>leftHandState := s\<rparr>, evs)
             | Inr (s, new) \<Rightarrow>
                 updateLoop now rest mh (i + 1)
                   (t\<lparr>leftHandState := s\<rparr>, True, rightDetected, evs @ new))
          else
            (case processHand (onPunchDetected t) now landmarks (rightHandState t) ''right'' of
               Inl (e, s) \<Rightarrow> Inl (e, t\<lparr>rightHandState := s\<rparr>, evs)
             | Inr (s, new) \<Rightarrow>
                 updateLoop now rest mh (i + 1)
                   (t\<lparr>rightHandState := s\<rparr>, leftDetected, True, evs @ new)))"

text \<open>The decay applied to a side that was not detected in the frame.\<close>

definition decay :: "HandState \<Rightarrow> HandState" where
  "decay s = s\<lparr>depth := depth s * 0.9, velocity := velocity s * 0.8, isPunching := False\<rparr>"

definition update :: "Tracker \<Rightarrow> int \<Rightarrow> Results
    \<Rightarrow> error \<times> Tracker \<times> PunchEvent list + Tracker \<times> PunchEvent list \<times> HandState option Sides" where
  "update t now results =
     (case (case (multiHandLandmarks results, multiHandedness results) of
              (Some mhl, Some mh) \<Rightarrow> updateLoop now mhl mh 0 (t, False, False, [])
            | _ \<Rightarrow> Inr (t, False, False, [])) of
        Inl err \<Rightarrow> Inl err
      | Inr (t1, leftDetected, rightDetected, evs) \<Rightarrow>
          (let t2 = (if \<not> leftDetected
                     then t1\<lparr>leftHandState := decay (leftHandState t1)\<rparr> else t1);
               t3 = (if \<not> rightDetected
                     then t2\<lparr>rightHandState := decay (rightHandState t2)\<rparr> else t2)
           in Inr (t3, evs,
                \<lparr>left = (if leftDetected then Some (leftHandState t3) else None),
                 right = (if rightDetected then Some (rightHandState t3) else None)\<rparr>)))"

definition getHandStates :: "Tracker \<Rightarrow> HandState Sides" where
  "getHandStates t = \<lparr>left = leftHandState t, right = rightHandState t\<rparr>"

definition setOnPunchDetected :: "bool \<Rightarrow> Tracker \<Rightarrow> Tracker" where
  "setOnPunchDetected callback t = t\<lparr>onPunchDetected := callback\<rparr>"

definition reset :: "Tracker \<Rightarrow> Tracker" where
  "reset t = t\<lparr>leftHandState := createHandState, rightHandState := createHandState\<rparr>"

text \<open>
  The operations of the public interface that change the module state, and a run of
  them. A call of \<open>update\<close> that throws still leaves its mutations behind, and the
  next call goes on from there. Each event is listed with the clock reading of its tick.
\<close>

datatype Op = Update int Results | Reset | SetOnPunchDetected bool

fun step :: "Tracker \<Rightarrow> Op \<Rightarrow> Tracker \<times> (int \<times> PunchEvent) list" where
  "step t (Update now results) =
     (case update t now results of
        Inl (e, t', evs) \<Rightarrow> (t', map (Pair now) evs)
      | Inr (t', evs, snap) \<Rightarrow> (t', map (Pair now) evs))"
| "step t Reset = (reset t, [])"
| "step t (SetOnPunchDetected callback) = (setOnPunchDetected callback t, [])"

fun run :: "Tracker \<Rightarrow> Op list \<Rightarrow> Tracker \<times> (int \<times> PunchEvent) list" where
  "run t [] = (t, [])"
| "run t (op # ops) =
     (case step t op of (t1, e1) \<Rightarrow> (case run t1 ops of (t2, e2) \<Rightarrow> (t2, e1 @ e2)))"

text \<open>The two sides, to state a property once for both hands.\<close>

datatype Side = LeftSide | RightSide

fun handOf :: "Side \<Rightarrow> 'hs TrackerOf \<Rightarrow> 'hs" where
  "handOf LeftSide t = leftHandState t"
| "handOf RightSide t = rightHandState t"

fun snapOf :: "Side \<Rightarrow> 'a Sides \<Rightarrow> 'a" where
  "snapOf LeftSide sn = left sn"
| "snapOf RightSide sn = right sn"

subsection \<open>The hand state objects in memory\<close>

text \<open>
  \<open>getHandStates\<close> and \<open>update\<close> return \<open>{ ...leftHandState }\<close>: a new object
  with the same field values. For the fields \<open>depthHistory\<close>, \<open>velocityHistory\<close> and
  \<open>position\<close> the value is a reference. The store below holds the arrays and position
  objects; a reference is an index into it.
\<close>

type_synonym ref = nat

datatype cell = NumArray "real list" | PosObj Position

type_synonym store = "cell list"

type_synonym HandObj = "(ref, ref) HandStateOf"

type_synonym TrackerObj = "HandObj TrackerOf"

definition alloc :: "cell \<Rightarrow> store \<Rightarrow> ref \<times> store" where
  "alloc c st = (length st, st @ [c])"

definition createHandStateObj :: "store \<Rightarrow> HandObj \<times> store" where
  "createHandStateObj st =
     (case alloc (NumArray []) st of (dh, st1) \<Rightarrow>
      case alloc (NumArray []) st1 of (vh, st2) \<Rightarrow>
      case alloc (PosObj \<lparr>pos_x = 0, pos_y = 0, pos_z = 0\<rparr>) st2 of (p, st3) \<Rightarrow>
        (\<lparr>depth = 0, smoothedDepth = 0, rawPalmZ = 0, scaleDepth = 0, rawCombinedDepth = 0,
          depthHistory = dh, velocityHistory = vh, historyMaxLength = 5,
          velocityHistoryMaxLength = 50, velocity = 0, scale = REFERENCE_HAND_SIZE,
          isPunching = False, punchStartTime = 0, lastPunchTime = 0, punchPower = 0,
          position = p, isFist = False\<rparr>, st3))"

definition initialTrackerObj :: "TrackerObj \<times> store" where
  "initialTrackerObj =
     (case createHandStateObj [] of (l, st1) \<Rightarrow>
      case createHandStateObj st1 of (r, st2) \<Rightarrow>
        (\<lparr>leftHandState = l, rightHandState = r, onPunchDetected = False\<rparr>, st2))"

definition arrayAt :: "store \<Rightarrow> ref \<Rightarrow> real list" where
  "arrayAt st r = (case js_index st r of Some (NumArray xs) \<Rightarrow> xs | _ \<Rightarrow> [])"

definition posAt :: "store \<Rightarrow> ref \<Rightarrow> Position" where
  "posAt st r =
     (case js_index st r of Some (PosObj p) \<Rightarrow> p | _ \<Rightarrow> \<lparr>pos_x = 0, pos_y = 0, pos_z = 0\<rparr>)"

text \<open>The hand state that the functions of the tracker read through the references.\<close>

definition readHand :: "store \<Rightarrow> HandObj \<Rightarrow> HandState" where
  "readHand st h =
     \<lparr>depth = depth h, smoothedDepth = smoothedDepth h, rawPalmZ = rawPalmZ h,
      scaleDepth = scaleDepth h, rawCombinedDepth = rawCombinedDepth h,
      depthHistory = arrayAt st (depthHistory h),
      velocityHistory = arrayAt st (velocityHistory h),
      historyMaxLength = historyMaxLength h,
      velocityHistoryMaxLength = velocityHistoryMaxLength h, velocity = velocity h,
      scale = scale h, isPunching = isPunching h, punchStartTime = punchStartTime h,
      lastPunchTime = lastPunchTime h, punchPower = punchPower h,
      position = posAt st (position h), isFist = isFist h\<rparr>"

definition readTracker :: "store \<Rightarrow> TrackerObj \<Rightarrow> Tracker" where
  "readTracker st t =
     \<lparr>leftHandState = readHand st (leftHandState t),
      rightHandState = readHand st (rightHandState t),
      onPunchDetected = onPunchDetected t\<rparr>"

text \<open>The spread copies every field, the three references among them.\<close>

definition getHandStatesObj :: "TrackerObj \<Rightarrow> HandObj Sides" where
  "getHandStatesObj t = \<lparr>left = leftHandState t, right = rightHandState t\<rparr>"

text \<open>What a consumer can do to a snapshot it was handed: \<open>snapshot.depthHistory.push(v)\<close>.\<close>

definition arrayPush :: "ref \<Rightarrow> real \<Rightarrow> store \<Rightarrow> store" where
  "arrayPush r v st =
     (case js_index st r of Some (NumArray xs) \<Rightarrow> st[r := NumArray (xs @ [v])] | _ \<Rightarrow> st)"

subsection \<open>Frames used as concrete inputs\<close>

text \<open>A frame of 21 landmarks that all lie at one point.\<close>

definition flatHand :: "real \<Rightarrow> real \<Rightarrow> real \<Rightarrow> Landmark list" where
  "flatHand px py pz = replicate 21 \<lparr>lm_x = px, lm_y = py, lm_z = Some pz\<rparr>"

definition noHands :: Results where
  "noHands = \<lparr>multiHandLandmarks = Some [], multiHandedness = Some []\<rparr>"

definition oneHand :: "string \<Rightarrow> Landmark list \<Rightarrow> Results" where
  "oneHand lbl landmarks =
     \<lparr>multiHandLandmarks = Some [landmarks], multiHandedness = Some [\<lparr>label = lbl\<rparr>]\<rparr>"

definition twoHands :: "string \<Rightarrow> Landmark list \<Rightarrow> string \<Rightarrow> Landmark list \<Rightarrow> Results" where
  "twoHands lbl1 landmarks1 lbl2 landmarks2 =
     \<lparr>multiHandLandmarks = Some [landmarks1, landmarks2],
      multiHandedness = Some [\<lparr>label = lbl1\<rparr>, \<lparr>label = lbl2\<rparr>]\<rparr>"

text \<open>
  A frame of 21 landmarks at x = y = 0: the wrist has z = 3, the other twenty have no z
  coordinate.
\<close>

definition wristOnlyZ :: "Landmark list" where
  "wristOnlyZ =
     \<lparr>lm_x = 0, lm_y = 0, lm_z = Some 3\<rparr> # replicate 20 \<lparr>lm_x = 0, lm_y = 0, lm_z = None\<rparr>"

text \<open>
  The reading of the specification, written without reference to the code: a landmark
  whose z is missing becomes the same landmark with z = 0, and a landmark that has a z
  is left as it is.
\<close>

definition zeroMissingZ :: "Landmark \<Rightarrow> Landmark" where
  "zeroMissingZ p = (case lm_z p of None \<Rightarrow> p\<lparr>lm_z := Some 0\<rparr> | Some v \<Rightarrow> p)"

subsection \<open>Traces used as concrete inputs\<close>

text \<open>
  A callback is registered and the left hand (label \<open>Right\<close> in the mirrored camera
  view) is seen at time 0.
\<close>

definition seenPrefix :: "Op list" where
  "seenPrefix = [SetOnPunchDetected True, Update 0 (oneHand ''Right'' (flatHand 0 0 0))]"

text \<open>Then the hand moves forward at time 100 and is lost at time 110.\<close>

definition lossPrefix :: "Op list" where
  "lossPrefix =
     seenPrefix @ [Update 100 (oneHand ''Right'' (flatHand 0 0 (- 1))), Update 110 noHands]"

text \<open>Then it is seen again at time 120, still moving forward.\<close>

definition lossTrace :: "Op list" where
  "lossTrace = lossPrefix @ [Update 120 (oneHand ''Right'' (flatHand 0 0 (- 2)))]"

text \<open>The left hand held still in front of the camera for \<open>n\<close> ticks.\<close>

definition steadyTrace :: "nat \<Rightarrow> Op list" where
  "steadyTrace n = replicate n (Update 0 (oneHand ''Right'' (flatHand 0 0 0)))"

text \<open>The left hand state after the tick at time 0, and after the tick at time 100.\<close>

definition seenHand :: HandState where
  "seenHand =
     \<lparr>depth = 21 / 50, smoothedDepth = 21 / 50, rawPalmZ = 0, scaleDepth = 1,
      rawCombinedDepth = 3 / 5, depthHistory = [21 / 50], velocityHistory = [0],
      historyMaxLength = 5, velocityHistoryMaxLength = 50, velocity = 0, scale = 0,
      isPunching = False, punchStartTime = 0, lastPunchTime = 0, punchPower = 0,
      position = \<lparr>pos_x = 0, pos_y = 0, pos_z = 0\<rparr>, isFist = False\<rparr>"

definition punchingHand :: HandState where
  "punchingHand =
     \<lparr>depth = - 21 / 250, smoothedDepth = - 21 / 250, rawPalmZ = - 1, scaleDepth = 1,
      rawCombinedDepth = - 3 / 10, depthHistory = [21 / 50, - 21 / 250],
      velocityHistory = [0, - 63 / 125], historyMaxLength = 5,
      velocityHistoryMaxLength = 50, velocity = - 63 / 125, scale = 0,
      isPunching = True, punchStartTime = 100, lastPunchTime = 0, punchPower = 1,
      position = \<lparr>pos_x = 0, pos_y = 0, pos_z = - 1\<rparr>, isFist = False\<rparr>"

definition punchEvent :: PunchEvent where
  "punchEvent =
     \<lparr>ev_hand = ''left'', ev_power = 1,
      ev_position = \<lparr>pos_x = 0, pos_y = 0, pos_z = - 1\<rparr>,
      ev_velocity = - 63 / 125, ev_isFist = False\<rparr>"

text \<open>The module state with a callback set, a given left hand and a fresh right hand.\<close>

definition trackerWith :: "HandState \<Rightarrow> Tracker" where
  "trackerWith l =
     \<lparr>leftHandState = l, rightHandState = createHandState, onPunchDetected = True\<rparr>"

subsection \<open>Predicates on hand states\<close>

text \<open>The difference of the last two samples of a history \<open>h\<close> of length at least 2.\<close>

definition lastTwoDiff :: "real list \<Rightarrow> real" where
  "lastTwoDiff h = h ! (length h - 1) - h ! (length h - 2)"

definition histBounded :: "HandState \<Rightarrow> bool" where
  "histBounded s \<longleftrightarrow>
     historyMaxLength s = 5 \<and> velocityHistoryMaxLength s = 50
     \<and> length (depthHistory s) \<le> 5 \<and> length (velocityHistory s) \<le> 50"

definition velocityZeroShort :: "HandState \<Rightarrow> bool" where
  "velocityZeroShort s \<longleftrightarrow> (length (depthHistory s) < 2 \<longrightarrow> velocity s = 0)"

definition velocityFresh :: "HandState \<Rightarrow> bool" where
  "velocityFresh s \<longleftrightarrow>
     velocity s = (if 2 \<le> length (depthHistory s) then lastTwoDiff (depthHistory s) else 0)"

text \<open>The hand state, or module state, that a call leaves behind, thrown or not.\<close>

definition afterProcess :: "error \<times> HandState + HandState \<times> PunchEvent list \<Rightarrow> HandState" where
  "afterProcess r = (case r of Inl (e, s) \<Rightarrow> s | Inr (s, evs) \<Rightarrow> s)"

definition afterLoop :: "error \<times> Tracker \<times> PunchEvent list
    + Tracker \<times> bool \<times> bool \<times> PunchEvent list \<Rightarrow> Tracker" where
  "afterLoop r = (case r of Inl (e, t, evs) \<Rightarrow> t | Inr (t, ld, rd, evs) \<Rightarrow> t)"

section \<open>Properties of the grid classifier\<close>

lemma getLogicalRow_div: "getLogicalRow r = r div 2"
  unfolding getLogicalRow_def using floor_divide_of_int_eq [of r 2, where ?'a = real] by simp

lemma getLogicalCol_div: "getLogicalCol c = c div 2"
  unfolding getLogicalCol_def using floor_divide_of_int_eq [of c 2, where ?'a = real] by simp

lemma js_index_replicate: "js_index (replicate n v) i = (if i < n then Some v else None)"
  by (simp add: js_index_def)

lemma gridPos_col_01: "getLogicalCol (col (gridPos 6 handX handY)) = 0"
  by (simp add: gridPos_def Let_def getLogicalCol_div)

lemma handGrids_twoHands:
  "handGrids n (twoHands ''Right'' (flatHand a b c) ''Left'' (flatHand a b c))
     = Inr (Some (gridPos n a b), Some (gridPos n a b))"
  by (simp add: handGrids_def twoHands_def flatHand_def js_index_replicate js_index_def)

lemma gridPos_3_example: "gridPos 3 (1 / 4) (1 / 10) = \<lparr>row = 0, col = 1\<rparr>"
  by (simp add: gridPos_def Let_def)

lemma gridPos_6_example: "gridPos 6 (1 / 4) (1 / 10) = \<lparr>row = 0, col = 1\<rparr>"
  by (simp add: gridPos_def Let_def)

lemma if_notin: "a \<notin> S \<Longrightarrow> b \<notin> S \<Longrightarrow> (if c then a else b) \<notin> S"
  by simp

lemma detectStance_range: "detectStance lg rg \<notin> {uppercutLeft, uppercutRight}"
  by (cases lg; cases rg; hypsubst; simp only: detectStance.simps; (intro if_notin)?; simp)

lemma detectStance4x4_range: "detectStance4x4 lg rg \<notin> {uppercutLeft, uppercutRight}"
  by (cases lg; cases rg; hypsubst; simp only: detectStance4x4.simps Let_def;
      (intro if_notin)?; simp)

lemma detectStance4x6_range: "detectStance4x6 lg rg \<notin> {uppercutLeft, uppercutRight}"
  by (cases lg; cases rg; hypsubst; simp only: detectStance4x6.simps Let_def;
      (intro if_notin)?; simp)

text \<open>
  Claim C9. Whatever the two optional grid positions are, none of the three versions of
  \<open>detectStance\<close> yields \<open>uppercutLeft\<close> or \<open>uppercutRight\<close>, although both are
  keys of the renderer's stance table.
\<close>

theorem detectStance_never_uppercut:
  "detectStance lg rg \<notin> {uppercutLeft, uppercutRight}
   \<and> detectStance4x4 lg rg \<notin> {uppercutLeft, uppercutRight}
   \<and> detectStance4x6 lg rg \<notin> {uppercutLeft, uppercutRight}"
  by (intro conjI detectStance_range detectStance4x4_range detectStance4x6_range)

text \<open>
  The rule for two hands in the bottom row, as camera.js has it: \<open>duckLeft\<close> if
  either hand is in the left column, \<open>duckRight\<close> otherwise.
\<close>

lemma detectStance_both_bottom:
  "row lg = 2 \<Longrightarrow> row rg = 2 \<Longrightarrow>
   detectStance (Some lg) (Some rg) = (if col lg = 0 \<or> col rg = 0 then duckLeft else duckRight)"
  by simp

lemma gridPos_bottom_examples:
  "gridPos 3 (1 / 4) (9 / 10) = \<lparr>row = 2, col = 1\<rparr>"
  "gridPos 4 (1 / 4) (9 / 10) = \<lparr>row = 3, col = 1\<rparr>"
  "gridPos 6 (1 / 4) (9 / 10) = \<lparr>row = 5, col = 1\<rparr>"
  by (simp_all add: gridPos_def Let_def)

text \<open>
  Claim C6. Both hands at x = 0.25, y = 0.9, that is in the bottom row and in the right
  column of the mirrored view: camera.js answers \<open>duckRight\<close>, as the rule says, while
  the 4 x 6 and the 4 x 4 versions answer \<open>duckLeft\<close>. On the grid positions
  themselves, with the left hand in the right column and the right hand in the left
  column, camera.js answers \<open>duckLeft\<close>, as the rule says, while the two later
  versions look at the left hand's column only and answer \<open>duckRight\<close>.
\<close>

theorem duck_rule_left_hand_only:
  "onResults (twoHands ''Right'' (flatHand (1 / 4) (9 / 10) 0)
                       ''Left'' (flatHand (1 / 4) (9 / 10) 0)) = Inr duckRight
   \<and> onResults4x6 (twoHands ''Right'' (flatHand (1 / 4) (9 / 10) 0)
                            ''Left'' (flatHand (1 / 4) (9 / 10) 0)) = Inr duckLeft
   \<and> onResults4x4 (twoHands ''Right'' (flatHand (1 / 4) (9 / 10) 0)
                            ''Left'' (flatHand (1 / 4) (9 / 10) 0)) = Inr duckLeft
   \<and> detectStance (Some \<lparr>row = 2, col = 1\<rparr>) (Some \<lparr>row = 2, col = 0\<rparr>) = duckLeft
   \<and> detectStance4x6 (Some \<lparr>row = 4, col = 2\<rparr>) (Some \<lparr>row = 4, col = 0\<rparr>) = duckRight
   \<and> detectStance4x4 (Some \<lparr>row = 3, col = 2\<rparr>) (Some \<lparr>row = 3, col = 0\<rparr>) = duckRight"
proof (intro conjI)
  show "onResults (twoHands ''Right'' (flatHand (1 / 4) (9 / 10) 0)
                       ''Left'' (flatHand (1 / 4) (9 / 10) 0)) = Inr duckRight"
    by (simp add: onResults_def handGrids_twoHands gridPos_bottom_examples)
  show "onResults4x6 (twoHands ''Right'' (flatHand (1 / 4) (9 / 10) 0)
                            ''Left'' (flatHand (1 / 4) (9 / 10) 0)) = Inr duckLeft"
    by (simp add: onResults4x6_def handGrids_twoHands gridPos_bottom_examples
        getLogicalRow_div getLogicalCol_div)
  show "onResults4x4 (twoHands ''Right'' (flatHand (1 / 4) (9 / 10) 0)
                            ''Left'' (flatHand (1 / 4) (9 / 10) 0)) = Inr duckLeft"
    by (simp add: onResults4x4_def handGrids_twoHands gridPos_bottom_examples)
  show "detectStance (Some \<lparr>row = 2, col = 1\<rparr>) (Some \<lparr>row = 2, col = 0\<rparr>) = duckLeft"
    by simp
  show "detectStance4x6 (Some \<lparr>row = 4, col = 2\<rparr>) (Some \<lparr>row = 4, col = 0\<rparr>) = duckRight"
    by (simp add: getLogicalRow_div getLogicalCol_div)
  show "detectStance4x4 (Some \<lparr>row = 3, col = 2\<rparr>) (Some \<lparr>row = 3, col = 0\<rparr>) = duckRight"
    by simp
qed

text \<open>
  Claim C2. Both hands at x = 0.25, y = 0.1 (top row, right column of the mirrored view):
  the 3 x 2 classifier of camera.js answers \<open>guardRight\<close>, the fine-grid classifier
  answers \<open>guardLeft\<close>. The fine-grid version still computes the column as 0 or 1 and
  then halves it, so its logical column is 0 for every hand position.
\<close>

theorem fine_grid_column_collapses:
  "onResults (twoHands ''Right'' (flatHand (1 / 4) (1 / 10) 0)
                       ''Left'' (flatHand (1 / 4) (1 / 10) 0)) = Inr guardRight
   \<and> onResults4x6 (twoHands ''Right'' (flatHand (1 / 4) (1 / 10) 0)
                            ''Left'' (flatHand (1 / 4) (1 / 10) 0)) = Inr guardLeft
   \<and> (\<forall>handX handY. getLogicalCol (col (gridPos 6 handX handY)) = 0)"
proof (intro conjI allI)
  show "onResults (twoHands ''Right'' (flatHand (1 / 4) (1 / 10) 0)
                       ''Left'' (flatHand (1 / 4) (1 / 10) 0)) = Inr guardRight"
    by (simp add: onResults_def handGrids_twoHands gridPos_3_example)
  show "onResults4x6 (twoHands ''Right'' (flatHand (1 / 4) (1 / 10) 0)
                            ''Left'' (flatHand (1 / 4) (1 / 10) 0)) = Inr guardLeft"
    by (simp add: onResults4x6_def handGrids_twoHands gridPos_6_example
        getLogicalRow_div getLogicalCol_div)
  show "getLogicalCol (col (gridPos 6 handX handY)) = 0" for handX handY
    by (rule gridPos_col_01)
qed

section \<open>Properties of the hand depth tracker\<close>

lemma palm_total: "18 \<le> length lm \<Longrightarrow>
  calculatePalmDepth lm = Inr ((z_or_0 (lm ! 0) + z_or_0 (lm ! 1) + z_or_0 (lm ! 5) + z_or_0 (lm ! 9) + z_or_0 (lm ! 13) + z_or_0 (lm ! 17)) / 6)"
  by (auto simp: calculatePalmDepth_def palmIndices_def js_index_def)

lemma scale_total: "10 \<le> length lm \<Longrightarrow> \<exists>v. calculateHandScale lm = Inr v"
  by (auto simp: calculateHandScale_def js_index_def Let_def)

lemma center_total: "18 \<le> length lm \<Longrightarrow> \<exists>v. calculateHandCenter lm = Inr v"
  by (auto simp: calculateHandCenter_def js_index_def Let_def)

lemma countCurled_total:
  "0 < length lm \<Longrightarrow> \<forall>(a, b) \<in> set ps. a < length lm \<and> b < length lm \<Longrightarrow> \<exists>n. countCurled lm ps c = Inr n"
  by (induction ps arbitrary: c) (auto simp: js_index_def Let_def)

lemma fist_total: "21 \<le> length lm \<Longrightarrow> \<exists>b. detectFist lm = Inr b"
proof -
  assume a: "21 \<le> length lm"
  have "\<exists>n. countCurled lm (zip fingerTips fingerMCPs) 0 = Inr n"
    by (rule countCurled_total) (use a in \<open>auto simp: fingerTips_def fingerMCPs_def\<close>)
  then show ?thesis by (auto simp: detectFist_def)
qed

lemma fist_short: "length lm < 21 \<Longrightarrow> detectFist lm = Inl TypeError"
  by (simp add: detectFist_def fingerTips_def fingerMCPs_def js_index_def Let_def
      split: sum.splits prod.splits option.splits)

lemma processHand_short: "length lm < 21 \<Longrightarrow> isl (processHand cb now lm s nm)"
  by (simp add: processHand_def fist_short split: sum.splits)

lemma processHand_total:
  assumes "21 \<le> length lm"
  shows "\<exists>pd sc pos fist. calculatePalmDepth lm = Inr pd \<and> calculateHandScale lm = Inr sc
     \<and> calculateHandCenter lm = Inr pos \<and> detectFist lm = Inr fist
     \<and> processHand cb now lm s nm = Inr (detectPunch cb now nm pos ((updateDepth pd sc pos s)\<lparr>isFist := fist\<rparr>))"
proof -
  from assms obtain sc where 1: "calculateHandScale lm = Inr sc" using scale_total[of lm] by auto
  from assms obtain pos where 2: "calculateHandCenter lm = Inr pos" using center_total[of lm] by auto
  from assms obtain fist where 3: "detectFist lm = Inr fist" using fist_total[of lm] by auto
  have "18 \<le> length lm" using assms by simp
  from palm_total[OF this] obtain pd where 4: "calculatePalmDepth lm = Inr pd" by blast
  show ?thesis using 1 2 3 4 by (simp add: processHand_def Let_def)
qed


lemma flat_palm: "calculatePalmDepth (flatHand a b c) = Inr c"
  by (simp add: calculatePalmDepth_def palmIndices_def flatHand_def js_index_replicate z_or_0_def)

lemma flat_scale: "calculateHandScale (flatHand a b c) = Inr 0"
  by (simp add: calculateHandScale_def flatHand_def js_index_replicate z_or_0_def)

lemma flat_center: "calculateHandCenter (flatHand a b c) = Inr \<lparr>pos_x = a, pos_y = b, pos_z = c\<rparr>"
  by (simp add: calculateHandCenter_def flatHand_def js_index_replicate z_or_0_def)

lemma flat_fist: "detectFist (flatHand a b c) = Inr False"
  by (simp add: detectFist_def fingerTips_def fingerMCPs_def flatHand_def js_index_replicate)

lemmas flat_simps = flat_palm flat_scale flat_center flat_fist


lemma processHand_flat:
  "processHand cb now (flatHand a b c) s nm =
     Inr (detectPunch cb now nm \<lparr>pos_x = a, pos_y = b, pos_z = c\<rparr>
            ((updateDepth c 0 \<lparr>pos_x = a, pos_y = b, pos_z = c\<rparr> s)\<lparr>isFist := False\<rparr>))"
  by (simp add: processHand_def flat_simps)

lemma update_noHands:
  "update t now noHands =
     Inr (t\<lparr>leftHandState := decay (leftHandState t), rightHandState := decay (rightHandState t)\<rparr>,
          [], \<lparr>left = None, right = None\<rparr>)"
  by (simp add: update_def noHands_def)

lemma update_oneLeft:
  "processHand (onPunchDetected t) now lm (leftHandState t) ''left'' = Inr (s, new) \<Longrightarrow>
   update t now (oneHand ''Right'' lm) =
     Inr (t\<lparr>leftHandState := s, rightHandState := decay (rightHandState t)\<rparr>, new,
          \<lparr>left = Some s, right = None\<rparr>)"
  by (simp add: update_def oneHand_def js_index_def)

lemmas hand_defs = updateDepth_def detectPunch_def decay_def
  pushShift_def Let_def createHandState_def 
  REFERENCE_HAND_SIZE_def DEPTH_SMOOTHING_def VELOCITY_THRESHOLD_def PUNCH_COOLDOWN_def


lemma run_append:
  "run t (xs @ ys) =
     (case run t xs of (t1, e1) \<Rightarrow> (case run t1 ys of (t2, e2) \<Rightarrow> (t2, e1 @ e2)))"
  by (induction xs arbitrary: t) (auto split: prod.splits)

lemma run_Cons_eq:
  "step t op = (t1, e1) \<Longrightarrow> run t1 ops = (t2, e2) \<Longrightarrow> run t (op # ops) = (t2, e1 @ e2)"
  by simp

lemma process_seen:
  "processHand True 0 (flatHand 0 0 0) createHandState ''left'' = Inr (seenHand, [])"
  by (simp add: processHand_flat hand_defs seenHand_def)

lemma process_punching:
  "processHand True 100 (flatHand 0 0 (- 1)) seenHand ''left'' = Inr (punchingHand, [punchEvent])"
  by (simp add: processHand_flat hand_defs seenHand_def punchingHand_def punchEvent_def)

lemma decay_create: "decay createHandState = createHandState"
  by (simp add: decay_def createHandState_def)

lemma update_seen:
  "update (trackerWith createHandState) 0 (oneHand ''Right'' (flatHand 0 0 0)) =
     Inr (trackerWith seenHand, [], \<lparr>left = Some seenHand, right = None\<rparr>)"
  using update_oneLeft [of "trackerWith createHandState" 0 "flatHand 0 0 0" seenHand "[]"]
    process_seen
  by (simp add: trackerWith_def decay_create)

lemma update_punching:
  "update (trackerWith seenHand) 100 (oneHand ''Right'' (flatHand 0 0 (- 1))) =
     Inr (trackerWith punchingHand, [punchEvent], \<lparr>left = Some punchingHand, right = None\<rparr>)"
  using update_oneLeft [of "trackerWith seenHand" 100 "flatHand 0 0 (- 1)" punchingHand "[punchEvent]"]
    process_punching
  by (simp add: trackerWith_def decay_create)

lemma update_lost:
  "update (trackerWith punchingHand) 110 noHands =
     Inr (trackerWith (decay punchingHand), [], \<lparr>left = None, right = None\<rparr>)"
  by (simp add: update_noHands trackerWith_def decay_create)

lemma run_seenPrefix: "run initialTracker seenPrefix = (trackerWith seenHand, [])"
proof -
  have st0: "step initialTracker (SetOnPunchDetected True) = (trackerWith createHandState, [])"
    by (simp add: setOnPunchDetected_def initialTracker_def trackerWith_def)
  have st1: "step (trackerWith createHandState) (Update 0 (oneHand ''Right'' (flatHand 0 0 0)))
      = (trackerWith seenHand, [])"
    by (simp add: update_seen)
  have r2: "run (trackerWith seenHand) [] = (trackerWith seenHand, [])" by simp
  note r1 = run_Cons_eq [OF st1 r2]
  note r0 = run_Cons_eq [OF st0 r1]
  show ?thesis unfolding seenPrefix_def using r0 by simp
qed

lemma run_lossPrefix:
  "run initialTracker lossPrefix = (trackerWith (decay punchingHand), [(100, punchEvent)])"
proof -
  have st2: "step (trackerWith seenHand) (Update 100 (oneHand ''Right'' (flatHand 0 0 (- 1))))
      = (trackerWith punchingHand, [(100, punchEvent)])"
    by (simp add: update_punching)
  have st3: "step (trackerWith punchingHand) (Update 110 noHands)
      = (trackerWith (decay punchingHand), [])"
    by (simp add: update_lost)
  have r4: "run (trackerWith (decay punchingHand)) [] = (trackerWith (decay punchingHand), [])"
    by simp
  note r3 = run_Cons_eq [OF st3 r4]
  note r2 = run_Cons_eq [OF st2 r3]
  show ?thesis unfolding lossPrefix_def using r2 by (simp add: run_append run_seenPrefix)
qed

lemma process_again:
  "\<exists>s e. processHand True 120 (flatHand 0 0 (- 2)) (decay punchingHand) ''left'' = Inr (s, [e])
     \<and> ev_hand e = ''left''"
  by (simp add: processHand_flat hand_defs punchingHand_def)

text \<open>
  Claim C1. On the trace \<open>lossTrace\<close> the callback receives two punch events for
  the left hand, at times 100 and 120: they are 20 ms apart, less than the cooldown of
  80 ms. The tick at time 110, on which the hand is not detected, clears
  \<open>isPunching\<close> without recording \<open>lastPunchTime\<close>, so no cooldown starts.
\<close>
theorem punch_refires_after_tracking_loss: "map (apsnd ev_hand) (snd (run initialTracker lossTrace))
     = [(100, ''left''), (120, ''left'')]
   \<and> (120 :: int) - 100 < PUNCH_COOLDOWN"
proof -
  from process_again obtain s e
    where pe: "processHand True 120 (flatHand 0 0 (- 2)) (decay punchingHand) ''left'' = Inr (s, [e])"
      and h: "ev_hand e = ''left''" by blast
  have "update (trackerWith (decay punchingHand)) 120 (oneHand ''Right'' (flatHand 0 0 (- 2)))
      = Inr ((trackerWith (decay punchingHand))\<lparr>leftHandState := s,
               rightHandState := decay (rightHandState (trackerWith (decay punchingHand)))\<rparr>,
             [e], \<lparr>left = Some s, right = None\<rparr>)"
    by (rule update_oneLeft) (simp add: trackerWith_def pe)
  then show ?thesis
    unfolding lossTrace_def using h
    by (simp add: run_append run_lossPrefix punchEvent_def PUNCH_COOLDOWN_def)
qed

text \<open>
  Claim C5, as stated, fails after a tick on which the hand is not detected: after
  \<open>lossPrefix\<close> the left history has two samples whose difference is -63/125, and the
  stored velocity is that value decayed by 0.8.
\<close>
theorem velocity_decayed_after_lost_tick:
  "depthHistory (leftHandState (fst (run initialTracker lossPrefix))) = [21 / 50, - 21 / 250]
   \<and> lastTwoDiff (depthHistory (leftHandState (fst (run initialTracker lossPrefix)))) = - 63 / 125
   \<and> velocity (leftHandState (fst (run initialTracker lossPrefix))) = - 252 / 625
   \<and> velocity (leftHandState (fst (run initialTracker lossPrefix)))
       \<noteq> lastTwoDiff (depthHistory (leftHandState (fst (run initialTracker lossPrefix))))"
  by (simp add: run_lossPrefix lastTwoDiff_def trackerWith_def decay_def punchingHand_def)

lemma length_pushShift: "length (pushShift xs v m) = (if m < length xs + 1 then length xs else length xs + 1)"
  by (simp add: pushShift_def Let_def)

lemma pushShift_fifo:
  "pushShift xs v m = (if length xs < m then xs @ [v] else tl (xs @ [v]))"
  by (auto simp: pushShift_def Let_def)

lemma updateDepth_depth_fields:
  "scaleDepth (updateDepth pd sc pos s) = - (sc - REFERENCE_HAND_SIZE) / REFERENCE_HAND_SIZE"
  "rawCombinedDepth (updateDepth pd sc pos s) =
     (pd * 0.6 + scaleDepth (updateDepth pd sc pos s) * 0.4) * 1.5"
  "smoothedDepth (updateDepth pd sc pos s) =
     smoothedDepth s * (1 - DEPTH_SMOOTHING) + rawCombinedDepth (updateDepth pd sc pos s) * DEPTH_SMOOTHING"
  "depth (updateDepth pd sc pos s) = smoothedDepth (updateDepth pd sc pos s)"
  by (simp_all add: updateDepth_def Let_def)

lemma updateDepth_history:
  "depthHistory (updateDepth pd sc pos s) =
     pushShift (depthHistory s) (smoothedDepth (updateDepth pd sc pos s)) (historyMaxLength s)"
  "velocityHistory (updateDepth pd sc pos s) =
     pushShift (velocityHistory s) (velocity (updateDepth pd sc pos s)) (velocityHistoryMaxLength s)"
  "historyMaxLength (updateDepth pd sc pos s) = historyMaxLength s"
  "velocityHistoryMaxLength (updateDepth pd sc pos s) = velocityHistoryMaxLength s"
  by (simp_all add: updateDepth_def Let_def)

lemma updateDepth_velocity:
  "velocity (updateDepth pd sc pos s) =
     (if 2 \<le> length (depthHistory (updateDepth pd sc pos s))
      then lastTwoDiff (depthHistory (updateDepth pd sc pos s)) else velocity s)"
  by (simp add: updateDepth_def Let_def lastTwoDiff_def)

lemma detectPunch_frame:
  "depth (fst (detectPunch cb now nm pos s)) = depth s"
  "smoothedDepth (fst (detectPunch cb now nm pos s)) = smoothedDepth s"
  "rawPalmZ (fst (detectPunch cb now nm pos s)) = rawPalmZ s"
  "scaleDepth (fst (detectPunch cb now nm pos s)) = scaleDepth s"
  "rawCombinedDepth (fst (detectPunch cb now nm pos s)) = rawCombinedDepth s"
  "depthHistory (fst (detectPunch cb now nm pos s)) = depthHistory s"
  "velocityHistory (fst (detectPunch cb now nm pos s)) = velocityHistory s"
  "historyMaxLength (fst (detectPunch cb now nm pos s)) = historyMaxLength s"
  "velocityHistoryMaxLength (fst (detectPunch cb now nm pos s)) = velocityHistoryMaxLength s"
  "velocity (fst (detectPunch cb now nm pos s)) = velocity s"
  by (simp_all add: detectPunch_def Let_def)

lemma processHand_cases:
  obtains (early) e where "processHand cb now lm s nm = Inl (e, s)"
  | (mid) e pd sc pos where "processHand cb now lm s nm = Inl (e, updateDepth pd sc pos s)"
  | (full) pd sc pos fist where "calculatePalmDepth lm = Inr pd" "calculateHandScale lm = Inr sc"
      "processHand cb now lm s nm =
         Inr (detectPunch cb now nm pos ((updateDepth pd sc pos s)\<lparr>isFist := fist\<rparr>))"
proof (cases "calculatePalmDepth lm")
  case (Inl e)
  then show ?thesis using early [of e] by (simp add: processHand_def)
next
  case pd: (Inr pd)
  show ?thesis
  proof (cases "calculateHandScale lm")
    case (Inl e)
    with pd show ?thesis using early [of e] by (simp add: processHand_def)
  next
    case sc: (Inr sc)
    show ?thesis
    proof (cases "calculateHandCenter lm")
      case (Inl e)
      with pd sc show ?thesis using early [of e] by (simp add: processHand_def)
    next
      case pos: (Inr pos)
      show ?thesis
      proof (cases "detectFist lm")
        case (Inl e)
        with pd sc pos show ?thesis using mid [of e pd sc pos] by (simp add: processHand_def)
      next
        case (Inr fist)
        with pd sc pos show ?thesis using full [of pd sc pos fist] by (simp add: processHand_def)
      qed
    qed
  qed
qed

lemma updateLoop_preserves:
  assumes proc: "\<And>cb now lm s nm. P s \<Longrightarrow> P (afterProcess (processHand cb now lm s nm))"
  shows "P (leftHandState t) \<Longrightarrow> P (rightHandState t) \<Longrightarrow>
     P (leftHandState (afterLoop (updateLoop now mhl mh i (t, ld, rd, evs))))
     \<and> P (rightHandState (afterLoop (updateLoop now mhl mh i (t, ld, rd, evs))))"
proof (induction mhl arbitrary: t ld rd evs i)
  case Nil
  then show ?case by (simp add: afterLoop_def)
next
  case (Cons lm rest)
  show ?case
  proof (cases "js_index mh i")
    case None
    with Cons.prems show ?thesis by (simp add: afterLoop_def)
  next
    case (Some h)
    show ?thesis
    proof (cases "label h = ''Right''")
      case True
      have pl: "P (afterProcess (processHand (onPunchDetected t) now lm (leftHandState t) ''left''))"
        using proc Cons.prems(1) by blast
      show ?thesis
      proof (cases "processHand (onPunchDetected t) now lm (leftHandState t) ''left''")
        case (Inl a)
        then obtain e s where a: "a = (e, s)" by (cases a)
        with Inl pl have "P s" by (simp add: afterProcess_def)
        with Inl a Some True Cons.prems show ?thesis by (simp add: afterLoop_def)
      next
        case (Inr b)
        then obtain s new where b: "b = (s, new)" by (cases b)
        with Inr pl have ps: "P s" by (simp add: afterProcess_def)
        have "P (leftHandState (t\<lparr>leftHandState := s\<rparr>))" "P (rightHandState (t\<lparr>leftHandState := s\<rparr>))"
          using ps Cons.prems by simp_all
        from Cons.IH [OF this] Inr b Some True show ?thesis by simp
      qed
    next
      case False
      have pl: "P (afterProcess (processHand (onPunchDetected t) now lm (rightHandState t) ''right''))"
        using proc Cons.prems(2) by blast
      show ?thesis
      proof (cases "processHand (onPunchDetected t) now lm (rightHandState t) ''right''")
        case (Inl a)
        then obtain e s where a: "a = (e, s)" by (cases a)
        with Inl pl have "P s" by (simp add: afterProcess_def)
        with Inl a Some False Cons.prems show ?thesis by (simp add: afterLoop_def)
      next
        case (Inr b)
        then obtain s new where b: "b = (s, new)" by (cases b)
        with Inr pl have ps: "P s" by (simp add: afterProcess_def)
        have "P (leftHandState (t\<lparr>rightHandState := s\<rparr>))" "P (rightHandState (t\<lparr>rightHandState := s\<rparr>))"
          using ps Cons.prems by simp_all
        from Cons.IH [OF this] Inr b Some False show ?thesis by simp
      qed
    qed
  qed
qed

lemma step_preserves:
  assumes proc: "\<And>cb now lm s nm. P s \<Longrightarrow> P (afterProcess (processHand cb now lm s nm))"
    and dec: "\<And>s. P s \<Longrightarrow> P (decay s)"
    and init: "P createHandState"
    and l: "P (leftHandState t)" and r: "P (rightHandState t)"
  shows "P (leftHandState (fst (step t op))) \<and> P (rightHandState (fst (step t op)))"
proof (cases op)
  case (Update now results)
  show ?thesis
  proof (cases "multiHandLandmarks results")
    case None
    with Update l r dec show ?thesis by (simp add: update_def)
  next
    case mhl: (Some mhl)
    show ?thesis
    proof (cases "multiHandedness results")
      case None
      with Update mhl l r dec show ?thesis by (simp add: update_def)
    next
      case mh: (Some mh)
      have pres: "P (leftHandState (afterLoop (updateLoop now mhl mh 0 (t, False, False, []))))
         \<and> P (rightHandState (afterLoop (updateLoop now mhl mh 0 (t, False, False, []))))"
        using updateLoop_preserves [of P, OF proc l r] by blast
      show ?thesis
      proof (cases "updateLoop now mhl mh 0 (t, False, False, [])")
        case (Inl a)
        then obtain e t' evs where "a = (e, t', evs)" by (cases a) auto
        with Inl pres Update mhl mh show ?thesis by (simp add: update_def afterLoop_def)
      next
        case (Inr b)
        then obtain t' ld rd evs where "b = (t', ld, rd, evs)" by (cases b) auto
        with Inr pres Update mhl mh dec show ?thesis
          by (simp add: update_def afterLoop_def Let_def)
      qed
    qed
  qed
next
  case Reset
  with init show ?thesis by (simp add: reset_def)
next
  case (SetOnPunchDetected cb)
  with l r show ?thesis by (simp add: setOnPunchDetected_def)
qed

lemma fst_run_Cons: "fst (run t (op # ops)) = fst (run (fst (step t op)) ops)"
  by (simp split: prod.splits)

lemma run_preserves:
  assumes proc: "\<And>cb now lm s nm. P s \<Longrightarrow> P (afterProcess (processHand cb now lm s nm))"
    and dec: "\<And>s. P s \<Longrightarrow> P (decay s)"
    and init: "P createHandState"
  shows "P (leftHandState t) \<Longrightarrow> P (rightHandState t) \<Longrightarrow>
     P (leftHandState (fst (run t ops))) \<and> P (rightHandState (fst (run t ops)))"
proof (induction ops arbitrary: t)
  case Nil
  then show ?case by simp
next
  case (Cons op ops)
  have s: "P (leftHandState (fst (step t op))) \<and> P (rightHandState (fst (step t op)))"
    using step_preserves [of P, OF proc dec init Cons.prems] by blast
  from Cons.IH [of "fst (step t op)"] s show ?case
    by (simp only: fst_run_Cons)
qed


lemma histBounded_updateDepth: "histBounded s \<Longrightarrow> histBounded (updateDepth pd sc pos s)"
  by (simp add: histBounded_def updateDepth_history length_pushShift)

lemma histBounded_detectPunch: "histBounded s \<Longrightarrow> histBounded (fst (detectPunch cb now nm pos s))"
  by (simp add: histBounded_def detectPunch_frame)

lemma histBounded_isFist: "histBounded (s\<lparr>isFist := b\<rparr>) = histBounded s"
  by (simp add: histBounded_def)

lemma histBounded_process: "histBounded s \<Longrightarrow> histBounded (afterProcess (processHand cb now lm s nm))"
  by (cases rule: processHand_cases [of cb now lm s nm])
     (simp_all add: afterProcess_def histBounded_updateDepth histBounded_detectPunch
        histBounded_isFist split: prod.splits,
      metis fst_conv histBounded_detectPunch histBounded_isFist histBounded_updateDepth)

lemma histBounded_decay: "histBounded s \<Longrightarrow> histBounded (decay s)"
  by (simp add: histBounded_def decay_def)

lemma histBounded_create: "histBounded createHandState"
  by (simp add: histBounded_def createHandState_def)

lemma histBounded_reachable:
  "histBounded (leftHandState (fst (run initialTracker ops)))
   \<and> histBounded (rightHandState (fst (run initialTracker ops)))"
  by (rule run_preserves [of histBounded, OF histBounded_process histBounded_decay histBounded_create])
     (simp_all add: initialTracker_def histBounded_create)

lemma step_steady_length:
  assumes "histBounded (leftHandState t)"
  shows "length (depthHistory (leftHandState
            (fst (step t (Update 0 (oneHand ''Right'' (flatHand 0 0 0)))))))
         = min (length (depthHistory (leftHandState t)) + 1) 5"
proof -
  let ?pos = "\<lparr>pos_x = 0, pos_y = 0, pos_z = 0\<rparr>"
  let ?r = "detectPunch (onPunchDetected t) 0 ''left'' ?pos
              ((updateDepth 0 0 ?pos (leftHandState t))\<lparr>isFist := False\<rparr>)"
  have p: "processHand (onPunchDetected t) 0 (flatHand 0 0 0) (leftHandState t) ''left''
      = Inr (fst ?r, snd ?r)"
    by (simp add: processHand_flat)
  have l: "length (depthHistory (fst ?r)) = min (length (depthHistory (leftHandState t)) + 1) 5"
    using assms
    by (simp add: detectPunch_frame updateDepth_history length_pushShift histBounded_def)
  from update_oneLeft [OF p] l show ?thesis by simp
qed

lemma steadyTrace_length:
  "length (depthHistory (leftHandState (fst (run initialTracker (steadyTrace n))))) = min n 5"
proof (induction n)
  case 0
  show ?case by (simp add: steadyTrace_def initialTracker_def createHandState_def)
next
  case (Suc n)
  let ?t = "fst (run initialTracker (steadyTrace n))"
  have s: "steadyTrace (Suc n) = steadyTrace n @ [Update 0 (oneHand ''Right'' (flatHand 0 0 0))]"
    by (simp add: steadyTrace_def replicate_append_same)
  have r: "fst (run initialTracker (steadyTrace (Suc n)))
      = fst (step ?t (Update 0 (oneHand ''Right'' (flatHand 0 0 0))))"
    unfolding s by (simp add: run_append split: prod.splits)
  have hb: "histBounded (leftHandState ?t)"
    using histBounded_reachable [of "steadyTrace n"] by simp
  show ?case unfolding r step_steady_length [OF hb] Suc.IH by simp
qed

text \<open>
  Claim C8. In every state reached from the initial one by any operations, the depth
  history of each side has at most 5 entries and the velocity history at most 50.
  Processing a frame appends the new sample at the end and, when the history is full,
  drops the entry at the front, which is the oldest.
\<close>
theorem histories_bounded_fifo:
  assumes "t = fst (run initialTracker ops)" and "s = handOf sd t"
  shows "length (depthHistory s) \<le> 5 \<and> length (velocityHistory s) \<le> 50
     \<and> (21 \<le> length landmarks \<longrightarrow>
          (\<exists>s' evs. processHand cb now landmarks s handName = Inr (s', evs)
             \<and> depthHistory s' =
                 (if length (depthHistory s) < 5 then depthHistory s @ [smoothedDepth s']
                  else tl (depthHistory s) @ [smoothedDepth s'])
             \<and> velocityHistory s' =
                 (if length (velocityHistory s) < 50 then velocityHistory s @ [velocity s']
                  else tl (velocityHistory s) @ [velocity s'])))"
proof -
  have hb: "histBounded s"
    using histBounded_reachable [of ops] assms(1,2) by (cases sd) simp_all
  have fifo: "\<exists>s' evs. processHand cb now landmarks s handName = Inr (s', evs)
             \<and> depthHistory s' =
                 (if length (depthHistory s) < 5 then depthHistory s @ [smoothedDepth s']
                  else tl (depthHistory s) @ [smoothedDepth s'])
             \<and> velocityHistory s' =
                 (if length (velocityHistory s) < 50 then velocityHistory s @ [velocity s']
                  else tl (velocityHistory s) @ [velocity s'])"
    if len: "21 \<le> length landmarks"
  proof -
    from processHand_total [OF len, of cb now s handName]
    obtain pd sc pos fist where
      ph: "processHand cb now landmarks s handName =
          Inr (detectPunch cb now handName pos ((updateDepth pd sc pos s)\<lparr>isFist := fist\<rparr>))"
      by blast
    let ?r = "detectPunch cb now handName pos ((updateDepth pd sc pos s)\<lparr>isFist := fist\<rparr>)"
    have ph': "processHand cb now landmarks s handName = Inr (fst ?r, snd ?r)"
      using ph by simp
    have d: "depthHistory (fst ?r) =
        (if length (depthHistory s) < 5 then depthHistory s @ [smoothedDepth (fst ?r)]
         else tl (depthHistory s) @ [smoothedDepth (fst ?r)])"
      using hb by (cases "depthHistory s")
        (simp_all add: detectPunch_frame updateDepth_history pushShift_fifo histBounded_def)
    have v: "velocityHistory (fst ?r) =
        (if length (velocityHistory s) < 50 then velocityHistory s @ [velocity (fst ?r)]
         else tl (velocityHistory s) @ [velocity (fst ?r)])"
      using hb by (cases "velocityHistory s")
        (simp_all add: detectPunch_frame updateDepth_history pushShift_fifo histBounded_def)
    from ph' d v show ?thesis by blast
  qed
  from hb have "length (depthHistory s) \<le> 5 \<and> length (velocityHistory s) \<le> 50"
    by (simp add: histBounded_def)
  with fifo show ?thesis by blast
qed

text \<open>
  After five ticks of \<open>steadyTrace\<close> the depth history of the left hand is full, and
  the sixth frame evicts its first entry.
\<close>
theorem histories_bounded_fifo_witness:
  "21 \<le> length (flatHand 0 0 0)
   \<and> length (depthHistory (handOf LeftSide (fst (run initialTracker (steadyTrace 5))))) = 5
   \<and> length (velocityHistory (handOf LeftSide (fst (run initialTracker (steadyTrace 5))))) \<le> 50
   \<and> (\<exists>s' evs.
        processHand False 0 (flatHand 0 0 0)
          (handOf LeftSide (fst (run initialTracker (steadyTrace 5)))) ''left'' = Inr (s', evs)
        \<and> depthHistory s' =
            tl (depthHistory (handOf LeftSide (fst (run initialTracker (steadyTrace 5)))))
            @ [smoothedDepth s'])"
proof -
  have h: "21 \<le> length (flatHand 0 0 0)" by (simp add: flatHand_def)
  have l: "length (depthHistory (handOf LeftSide (fst (run initialTracker (steadyTrace 5))))) = 5"
    using steadyTrace_length [of 5] by simp
  from histories_bounded_fifo [where ops = "steadyTrace 5" and sd = LeftSide and cb = False
      and now = 0 and handName = "''left''" and landmarks = "flatHand 0 0 0", OF refl refl] h l
  show ?thesis by auto
qed

lemma velocityFresh_imp_short: "velocityFresh s \<Longrightarrow> velocityZeroShort s"
  by (simp add: velocityFresh_def velocityZeroShort_def)

lemma length_pushShift_ge: "length xs \<le> length (pushShift xs v m)"
  by (simp add: length_pushShift)

lemma velocityFresh_updateDepth:
  assumes "velocityZeroShort s"
  shows "velocityFresh (updateDepth pd sc pos s)"
proof (cases "2 \<le> length (depthHistory (updateDepth pd sc pos s))")
  case True
  then show ?thesis unfolding velocityFresh_def using updateDepth_velocity [of pd sc pos s] by simp
next
  case False
  have "length (depthHistory s) \<le> length (depthHistory (updateDepth pd sc pos s))"
    by (simp add: updateDepth_history length_pushShift_ge)
  with False have "length (depthHistory s) < 2" by simp
  with assms have "velocity s = 0" by (simp add: velocityZeroShort_def)
  with False show ?thesis
    unfolding velocityFresh_def using updateDepth_velocity [of pd sc pos s] by simp
qed

lemma velocityFresh_detectPunch:
  "velocityFresh s \<Longrightarrow> velocityFresh (fst (detectPunch cb now nm pos (s\<lparr>isFist := b\<rparr>)))"
  by (simp add: velocityFresh_def detectPunch_frame)

lemma velocityFresh_process:
  assumes "velocityZeroShort s" and "processHand cb now lm s nm = Inr (s', evs)"
  shows "velocityFresh s'"
proof (cases rule: processHand_cases [of cb now lm s nm])
  case (full pd sc pos fist)
  with assms(2) have "s' = fst (detectPunch cb now nm pos ((updateDepth pd sc pos s)\<lparr>isFist := fist\<rparr>))"
    by (metis Inr_inject fst_conv)
  then show ?thesis
    using velocityFresh_detectPunch [OF velocityFresh_updateDepth [OF assms(1)]] by simp
qed (use assms(2) in simp_all)

lemma velocityZeroShort_process:
  assumes "velocityZeroShort s"
  shows "velocityZeroShort (afterProcess (processHand cb now lm s nm))"
proof (cases rule: processHand_cases [of cb now lm s nm])
  case (early e)
  with assms show ?thesis by (simp add: afterProcess_def)
next
  case (mid e pd sc pos)
  then show ?thesis
    using velocityFresh_imp_short [OF velocityFresh_updateDepth [OF assms]]
    by (simp add: afterProcess_def)
next
  case (full pd sc pos fist)
  obtain s' evs where r: "processHand cb now lm s nm = Inr (s', evs)"
    using full(3) by (metis surj_pair)
  from velocityFresh_process [OF assms r] r show ?thesis
    by (simp add: afterProcess_def velocityFresh_imp_short)
qed

lemma velocityZeroShort_decay: "velocityZeroShort s \<Longrightarrow> velocityZeroShort (decay s)"
  by (simp add: velocityZeroShort_def decay_def)

lemma velocityZeroShort_create: "velocityZeroShort createHandState"
  by (simp add: velocityZeroShort_def createHandState_def)

lemma velocityZeroShort_reachable:
  "velocityZeroShort (leftHandState (fst (run initialTracker ops)))
   \<and> velocityZeroShort (rightHandState (fst (run initialTracker ops)))"
  by (rule run_preserves [of velocityZeroShort, OF velocityZeroShort_process
        velocityZeroShort_decay velocityZeroShort_create])
     (simp_all add: initialTracker_def velocityZeroShort_create)

lemma updateLoop_flags:
  assumes "updateLoop now mhl mh i (t, ld, rd, evs) = Inr (t', ld', rd', evs')"
    and "velocityZeroShort (leftHandState t)" and "velocityZeroShort (rightHandState t)"
    and "ld \<longrightarrow> velocityFresh (leftHandState t)" and "rd \<longrightarrow> velocityFresh (rightHandState t)"
  shows "(ld' \<longrightarrow> velocityFresh (leftHandState t')) \<and> (rd' \<longrightarrow> velocityFresh (rightHandState t'))"
  using assms
proof (induction mhl arbitrary: t ld rd evs i)
  case Nil
  then show ?case by simp
next
  case (Cons lm rest)
  from Cons.prems(1) obtain h where h: "js_index mh i = Some h"
    by (cases "js_index mh i") simp_all
  show ?case
  proof (cases "label h = ''Right''")
    case True
    from Cons.prems(1) h True obtain s new
      where p: "processHand (onPunchDetected t) now lm (leftHandState t) ''left'' = Inr (s, new)"
      by (cases "processHand (onPunchDetected t) now lm (leftHandState t) ''left''") auto
    have f: "velocityFresh s" by (rule velocityFresh_process [OF Cons.prems(2) p])
    have rec: "updateLoop now rest mh (i + 1) (t\<lparr>leftHandState := s\<rparr>, True, rd, evs @ new)
        = Inr (t', ld', rd', evs')"
      using Cons.prems(1) h True p by simp
    show ?thesis
      by (rule Cons.IH [OF rec]) (use f Cons.prems in \<open>simp_all add: velocityFresh_imp_short\<close>)
  next
    case False
    from Cons.prems(1) h False obtain s new
      where p: "processHand (onPunchDetected t) now lm (rightHandState t) ''right'' = Inr (s, new)"
      by (cases "processHand (onPunchDetected t) now lm (rightHandState t) ''right''") auto
    have f: "velocityFresh s" by (rule velocityFresh_process [OF Cons.prems(3) p])
    have rec: "updateLoop now rest mh (i + 1) (t\<lparr>rightHandState := s\<rparr>, ld, True, evs @ new)
        = Inr (t', ld', rd', evs')"
      using Cons.prems(1) h False p by simp
    show ?thesis
      by (rule Cons.IH [OF rec]) (use f Cons.prems in \<open>simp_all add: velocityFresh_imp_short\<close>)
  qed
qed



lemma update_Inr:
  assumes "update t now results = Inr (t', evs, snap)"
  obtains t1 ld rd where
    "(case (multiHandLandmarks results, multiHandedness results) of
        (Some mhl, Some mh) \<Rightarrow> updateLoop now mhl mh 0 (t, False, False, [])
      | _ \<Rightarrow> Inr (t, False, False, [])) = Inr (t1, ld, rd, evs)"
    "leftHandState t' = (if ld then leftHandState t1 else decay (leftHandState t1))"
    "rightHandState t' = (if rd then rightHandState t1 else decay (rightHandState t1))"
    "left snap = (if ld then Some (leftHandState t') else None)"
    "right snap = (if rd then Some (rightHandState t') else None)"
proof -
  let ?L = "(case (multiHandLandmarks results, multiHandedness results) of
        (Some mhl, Some mh) \<Rightarrow> updateLoop now mhl mh 0 (t, False, False, [])
      | _ \<Rightarrow> Inr (t, False, False, []))"
  from assms obtain b where b: "?L = Inr b"
    unfolding update_def by (cases ?L) simp_all
  obtain t1 ld rd evs1 where b': "b = (t1, ld, rd, evs1)" by (cases b) auto
  from assms b b' have "evs1 = evs"
    unfolding update_def by (simp add: Let_def)
  with assms b b' that [of t1 ld rd] show ?thesis
    unfolding update_def by (auto simp: Let_def split: if_splits)
qed

lemma loop_or_skip_fresh:
  assumes "(case (multiHandLandmarks results, multiHandedness results) of
        (Some mhl, Some mh) \<Rightarrow> updateLoop now mhl mh 0 (t, False, False, [])
      | _ \<Rightarrow> Inr (t, False, False, [])) = Inr (t1, ld, rd, evs)"
    and "velocityZeroShort (leftHandState t)" and "velocityZeroShort (rightHandState t)"
  shows "(ld \<longrightarrow> velocityFresh (leftHandState t1)) \<and> (rd \<longrightarrow> velocityFresh (rightHandState t1))"
proof (cases "multiHandLandmarks results")
  case None
  with assms(1) show ?thesis by simp
next
  case mhl: (Some mhl)
  show ?thesis
  proof (cases "multiHandedness results")
    case None
    with assms(1) mhl show ?thesis by simp
  next
    case (Some mh)
    with assms(1) mhl have "updateLoop now mhl mh 0 (t, False, False, []) = Inr (t1, ld, rd, evs)"
      by simp
    from updateLoop_flags [OF this assms(2,3)] show ?thesis by simp
  qed
qed


text \<open>
  Claim C5, amended. In every reachable state each side's velocity is 0 while its depth
  history has fewer than 2 samples. After every tick that detects a side and returns,
  the velocity in that side's snapshot (which is the stored state) is exactly the
  difference of the last two samples of the history when there are at least 2, and 0
  otherwise.
\<close>
theorem velocity_after_detected_tick:
  assumes "t = fst (run initialTracker ops)"
  shows "(length (depthHistory (handOf sd t)) < 2 \<longrightarrow> velocity (handOf sd t) = 0)
     \<and> (\<forall>now results t' evs snap s.
          update t now results = Inr (t', evs, snap) \<and> snapOf sd snap = Some s \<longrightarrow>
            s = handOf sd t'
            \<and> velocity s =
                (if 2 \<le> length (depthHistory s) then lastTwoDiff (depthHistory s) else 0))"
proof -
  have zs: "velocityZeroShort (leftHandState t)" "velocityZeroShort (rightHandState t)"
    using velocityZeroShort_reachable [of ops] assms(1) by simp_all
  have short: "length (depthHistory (handOf sd t)) < 2 \<longrightarrow> velocity (handOf sd t) = 0"
    using zs by (cases sd) (simp_all add: velocityZeroShort_def)
  have fresh: "s = handOf sd t'
      \<and> velocity s = (if 2 \<le> length (depthHistory s) then lastTwoDiff (depthHistory s) else 0)"
    if u: "update t now results = Inr (t', evs, snap)" and sn: "snapOf sd snap = Some s"
    for now results t' evs snap s
  proof -
    from update_Inr [OF u] obtain t1 ld rd where
      L: "(case (multiHandLandmarks results, multiHandedness results) of
          (Some mhl, Some mh) \<Rightarrow> updateLoop now mhl mh 0 (t, False, False, [])
        | _ \<Rightarrow> Inr (t, False, False, [])) = Inr (t1, ld, rd, evs)"
      and l: "leftHandState t' = (if ld then leftHandState t1 else decay (leftHandState t1))"
      and r: "rightHandState t' = (if rd then rightHandState t1 else decay (rightHandState t1))"
      and sl: "left snap = (if ld then Some (leftHandState t') else None)"
      and sr: "right snap = (if rd then Some (rightHandState t') else None)"
      by blast
    note fr = loop_or_skip_fresh [OF L zs]
    show ?thesis
    proof (cases sd)
      case LeftSide
      with sn sl have ld: "ld" and s: "s = leftHandState t'" by (simp_all split: if_splits)
      from fr ld l s have "velocityFresh s" by simp
      with s LeftSide show ?thesis by (simp add: velocityFresh_def)
    next
      case RightSide
      with sn sr have rd: "rd" and s: "s = rightHandState t'" by (simp_all split: if_splits)
      from fr rd r s have "velocityFresh s" by simp
      with s RightSide show ?thesis by (simp add: velocityFresh_def)
    qed
  qed
  from short fresh show ?thesis by blast
qed

text \<open>
  After \<open>seenPrefix\<close> the left history has one sample and the velocity is 0; the tick
  at time 100 detects the left hand, and its snapshot has a history of two samples.
\<close>
theorem velocity_after_detected_tick_witness:
  "length (depthHistory (handOf LeftSide (fst (run initialTracker seenPrefix)))) < 2
   \<and> velocity (handOf LeftSide (fst (run initialTracker seenPrefix))) = 0
   \<and> update (fst (run initialTracker seenPrefix)) 100 (oneHand ''Right'' (flatHand 0 0 (- 1)))
       = Inr (trackerWith punchingHand, [punchEvent], \<lparr>left = Some punchingHand, right = None\<rparr>)
   \<and> snapOf LeftSide \<lparr>left = Some punchingHand, right = None\<rparr> = Some punchingHand
   \<and> punchingHand = handOf LeftSide (trackerWith punchingHand)
   \<and> 2 \<le> length (depthHistory punchingHand)
   \<and> velocity punchingHand = lastTwoDiff (depthHistory punchingHand)"
proof -
  have u: "update (fst (run initialTracker seenPrefix)) 100 (oneHand ''Right'' (flatHand 0 0 (- 1)))
       = Inr (trackerWith punchingHand, [punchEvent], \<lparr>left = Some punchingHand, right = None\<rparr>)"
    by (simp add: run_seenPrefix update_punching)
  have sn: "snapOf LeftSide \<lparr>left = Some punchingHand, right = None\<rparr> = Some punchingHand"
    by simp
  have len: "length (depthHistory (handOf LeftSide (fst (run initialTracker seenPrefix)))) < 2"
    by (simp add: run_seenPrefix trackerWith_def seenHand_def)
  have len2: "2 \<le> length (depthHistory punchingHand)"
    by (simp add: punchingHand_def)
  note w = velocity_after_detected_tick [where ops = seenPrefix and sd = LeftSide, OF refl]
  from conjunct1 [OF w] len
  have v0: "velocity (handOf LeftSide (fst (run initialTracker seenPrefix))) = 0" by blast
  from conjunct2 [OF w] u sn
  have "punchingHand = handOf LeftSide (trackerWith punchingHand)
      \<and> velocity punchingHand =
          (if 2 \<le> length (depthHistory punchingHand)
           then lastTwoDiff (depthHistory punchingHand) else 0)"
    by blast
  with len2 len v0 u sn show ?thesis by simp
qed



lemma js_index_map: "js_index (map f xs) i = map_option f (js_index xs i)"
  by (simp add: js_index_def)

lemma zeroMissingZ_simps:
  "z_or_0 (zeroMissingZ p) = z_or_0 p" "lm_x (zeroMissingZ p) = lm_x p" "lm_y (zeroMissingZ p) = lm_y p"
  by (cases "lm_z p"; simp add: zeroMissingZ_def z_or_0_def)+

lemma zeroMissingZ_z:
  "lm_z (zeroMissingZ p) = Some (case lm_z p of None \<Rightarrow> 0 | Some v \<Rightarrow> v)"
  by (cases "lm_z p") (simp_all add: zeroMissingZ_def)

lemma scale_explicit:
  "10 \<le> length lm \<Longrightarrow>
   calculateHandScale lm =
     Inr (sqrt ((lm_x (lm ! 9) - lm_x (lm ! 0))\<^sup>2 + (lm_y (lm ! 9) - lm_y (lm ! 0))\<^sup>2
               + (z_or_0 (lm ! 9) - z_or_0 (lm ! 0))\<^sup>2))"
  by (auto simp: calculateHandScale_def js_index_def Let_def power2_eq_square)

lemma center_explicit:
  "18 \<le> length lm \<Longrightarrow>
   calculateHandCenter lm =
     Inr \<lparr>pos_x = (lm_x (lm ! 0) + lm_x (lm ! 5) + lm_x (lm ! 17)) / 3,
          pos_y = (lm_y (lm ! 0) + lm_y (lm ! 5) + lm_y (lm ! 17)) / 3,
          pos_z = (z_or_0 (lm ! 0) + z_or_0 (lm ! 5) + z_or_0 (lm ! 17)) / 3\<rparr>"
  by (auto simp: calculateHandCenter_def js_index_def)

lemma detectPunch_estimates:
  "rawPalmZ (fst (detectPunch cb now nm pos ((updateDepth pd sc pos s)\<lparr>isFist := fist\<rparr>))) = pd"
  "scale (fst (detectPunch cb now nm pos ((updateDepth pd sc pos s)\<lparr>isFist := fist\<rparr>))) = sc"
  "position (fst (detectPunch cb now nm pos ((updateDepth pd sc pos s)\<lparr>isFist := fist\<rparr>))) = pos"
  "isFist (fst (detectPunch cb now nm pos ((updateDepth pd sc pos s)\<lparr>isFist := fist\<rparr>))) = fist"
  by (simp_all add: detectPunch_def updateDepth_def Let_def)

lemma scale_zeroMissingZ: "calculateHandScale (map zeroMissingZ lm) = calculateHandScale lm"
  by (simp add: calculateHandScale_def js_index_map zeroMissingZ_simps split: option.splits)

lemma sumPalmZ_zeroMissingZ: "sumPalmZ (map zeroMissingZ lm) idxs acc = sumPalmZ lm idxs acc"
  by (induction idxs arbitrary: acc) (simp_all add: js_index_map zeroMissingZ_simps split: option.splits)

lemma palm_zeroMissingZ: "calculatePalmDepth (map zeroMissingZ lm) = calculatePalmDepth lm"
  by (simp add: calculatePalmDepth_def sumPalmZ_zeroMissingZ)

lemma center_zeroMissingZ: "calculateHandCenter (map zeroMissingZ lm) = calculateHandCenter lm"
  by (simp add: calculateHandCenter_def js_index_map zeroMissingZ_simps split: option.splits)

lemma countCurled_zeroMissingZ: "countCurled (map zeroMissingZ lm) ps c = countCurled lm ps c"
  by (induction ps arbitrary: c)
     (auto simp: js_index_map zeroMissingZ_simps Let_def split: option.splits)

lemma fist_zeroMissingZ: "detectFist (map zeroMissingZ lm) = detectFist lm"
  by (simp add: detectFist_def countCurled_zeroMissingZ)

lemma processHand_zeroMissingZ:
  "processHand cb now (map zeroMissingZ lm) s nm = processHand cb now lm s nm"
  unfolding processHand_def palm_zeroMissingZ scale_zeroMissingZ center_zeroMissingZ
    fist_zeroMissingZ by (rule refl)

text \<open>
  Claim C3, amended. For a frame of at least 21 landmarks, with or without z
  coordinates, palm depth, scale, hand center and fist detection all return, and so
  does \<open>processHand\<close>, which stores these estimates. With \<open>zs\<close> the z coordinates
  of the frame in which a missing z is read as the number 0, the palm depth is the mean
  of \<open>zs\<close> at the six palm indices, the scale is the distance from landmark 0 to
  landmark 9 with the z difference taken from \<open>zs\<close>, and the z of the hand center is
  the mean of \<open>zs\<close> at 0, 5 and 17. All results equal those on the frame in which every
  missing z has been replaced by 0. For a frame of fewer than 21 landmarks fist
  detection throws a TypeError, and \<open>processHand\<close> throws.
\<close>
theorem complete_frame_never_throws:
  "(21 \<le> length landmarks \<longrightarrow>
     (\<exists>zs palmDepth handScale center fist s' evs.
         zs = map (\<lambda>p. case lm_z p of None \<Rightarrow> 0 | Some v \<Rightarrow> v) landmarks
       \<and> calculatePalmDepth landmarks = Inr palmDepth
       \<and> palmDepth = (zs ! 0 + zs ! 1 + zs ! 5 + zs ! 9 + zs ! 13 + zs ! 17) / 6
       \<and> calculateHandScale landmarks = Inr handScale
       \<and> handScale =
           sqrt ((lm_x (landmarks ! 9) - lm_x (landmarks ! 0))\<^sup>2
                 + (lm_y (landmarks ! 9) - lm_y (landmarks ! 0))\<^sup>2 + (zs ! 9 - zs ! 0)\<^sup>2)
       \<and> calculateHandCenter landmarks = Inr center
       \<and> pos_z center = (zs ! 0 + zs ! 5 + zs ! 17) / 3
       \<and> detectFist landmarks = Inr fist
       \<and> processHand cb now landmarks s handName = Inr (s', evs)
       \<and> rawPalmZ s' = palmDepth \<and> scale s' = handScale \<and> position s' = center
       \<and> isFist s' = fist
       \<and> calculatePalmDepth (map zeroMissingZ landmarks) = Inr palmDepth
       \<and> calculateHandScale (map zeroMissingZ landmarks) = Inr handScale
       \<and> calculateHandCenter (map zeroMissingZ landmarks) = Inr center
       \<and> detectFist (map zeroMissingZ landmarks) = Inr fist
       \<and> processHand cb now (map zeroMissingZ landmarks) s handName = Inr (s', evs)))
   \<and> (length landmarks < 21 \<longrightarrow>
         detectFist landmarks = Inl TypeError
       \<and> isl (processHand cb now landmarks s handName))"
proof (intro conjI impI)
  assume len: "21 \<le> length landmarks"
  let ?zs = "map (\<lambda>p. case lm_z p of None \<Rightarrow> 0 | Some v \<Rightarrow> v) landmarks"
  have zs0: "?zs ! 0 = (case lm_z (landmarks ! 0) of None \<Rightarrow> 0 | Some v \<Rightarrow> v)"
    using len by (cases landmarks) simp_all
  from processHand_total [OF len, of cb now s handName]
  obtain pd sc pos fist where pd: "calculatePalmDepth landmarks = Inr pd"
    and sc: "calculateHandScale landmarks = Inr sc"
    and pos: "calculateHandCenter landmarks = Inr pos"
    and fist: "detectFist landmarks = Inr fist"
    and ph: "processHand cb now landmarks s handName =
        Inr (detectPunch cb now handName pos ((updateDepth pd sc pos s)\<lparr>isFist := fist\<rparr>))"
    by blast
  let ?r = "detectPunch cb now handName pos ((updateDepth pd sc pos s)\<lparr>isFist := fist\<rparr>)"
  have ph': "processHand cb now landmarks s handName = Inr (fst ?r, snd ?r)"
    using ph by simp
  have pdv: "pd = (?zs ! 0 + ?zs ! 1 + ?zs ! 5 + ?zs ! 9 + ?zs ! 13 + ?zs ! 17) / 6"
    using palm_total [of landmarks] len pd by (auto simp: z_or_0_def zs0)
  have scv: "sc = sqrt ((lm_x (landmarks ! 9) - lm_x (landmarks ! 0))\<^sup>2
                 + (lm_y (landmarks ! 9) - lm_y (landmarks ! 0))\<^sup>2 + (?zs ! 9 - ?zs ! 0)\<^sup>2)"
    using scale_explicit [of landmarks] len sc by (auto simp: z_or_0_def zs0)
  have posv: "pos_z pos = (?zs ! 0 + ?zs ! 5 + ?zs ! 17) / 3"
    using center_explicit [of landmarks] len pos by (auto simp: z_or_0_def zs0)
  have st: "rawPalmZ (fst ?r) = pd" "scale (fst ?r) = sc" "position (fst ?r) = pos"
    "isFist (fst ?r) = fist"
    by (rule detectPunch_estimates)+
  have z: "calculatePalmDepth (map zeroMissingZ landmarks) = Inr pd"
    "calculateHandScale (map zeroMissingZ landmarks) = Inr sc"
    "calculateHandCenter (map zeroMissingZ landmarks) = Inr pos"
    "detectFist (map zeroMissingZ landmarks) = Inr fist"
    "processHand cb now (map zeroMissingZ landmarks) s handName = Inr (fst ?r, snd ?r)"
    using pd sc pos fist ph'
    by (simp_all only: palm_zeroMissingZ scale_zeroMissingZ center_zeroMissingZ
        fist_zeroMissingZ processHand_zeroMissingZ)
  show "\<exists>zs palmDepth handScale center fist s' evs.
         zs = map (\<lambda>p. case lm_z p of None \<Rightarrow> 0 | Some v \<Rightarrow> v) landmarks
       \<and> calculatePalmDepth landmarks = Inr palmDepth
       \<and> palmDepth = (zs ! 0 + zs ! 1 + zs ! 5 + zs ! 9 + zs ! 13 + zs ! 17) / 6
       \<and> calculateHandScale landmarks = Inr handScale
       \<and> handScale =
           sqrt ((lm_x (landmarks ! 9) - lm_x (landmarks ! 0))\<^sup>2
                 + (lm_y (landmarks ! 9) - lm_y (landmarks ! 0))\<^sup>2 + (zs ! 9 - zs ! 0)\<^sup>2)
       \<and> calculateHandCenter landmarks = Inr center
       \<and> pos_z center = (zs ! 0 + zs ! 5 + zs ! 17) / 3
       \<and> detectFist landmarks = Inr fist
       \<and> processHand cb now landmarks s handName = Inr (s', evs)
       \<and> rawPalmZ s' = palmDepth \<and> scale s' = handScale \<and> position s' = center
       \<and> isFist s' = fist
       \<and> calculatePalmDepth (map zeroMissingZ landmarks) = Inr palmDepth
       \<and> calculateHandScale (map zeroMissingZ landmarks) = Inr handScale
       \<and> calculateHandCenter (map zeroMissingZ landmarks) = Inr center
       \<and> detectFist (map zeroMissingZ landmarks) = Inr fist
       \<and> processHand cb now (map zeroMissingZ landmarks) s handName = Inr (s', evs)"
    using pd pdv sc scv pos posv fist ph' st z by blast
next
  assume "length landmarks < 21"
  then show "detectFist landmarks = Inl TypeError" by (rule fist_short)
next
  assume "length landmarks < 21"
  then show "isl (processHand cb now landmarks s handName)" by (rule processHand_short)
qed

text \<open>
  On \<open>wristOnlyZ\<close> twenty z coordinates are missing: the palm depth is (3 + 0 + 0 + 0
  + 0 + 0) / 6, the scale is the distance 3 between z = 0 and z = 3, and the z of the
  hand center is (3 + 0 + 0) / 3. The first 20 landmarks of the frame serve the second
  part.
\<close>
theorem complete_frame_never_throws_witness:
  "21 \<le> length wristOnlyZ
   \<and> map zeroMissingZ wristOnlyZ =
       \<lparr>lm_x = 0, lm_y = 0, lm_z = Some 3\<rparr> # replicate 20 \<lparr>lm_x = 0, lm_y = 0, lm_z = Some 0\<rparr>
   \<and> calculatePalmDepth wristOnlyZ = Inr (1 / 2)
   \<and> calculateHandScale wristOnlyZ = Inr 3
   \<and> calculateHandCenter wristOnlyZ = Inr \<lparr>pos_x = 0, pos_y = 0, pos_z = 1\<rparr>
   \<and> detectFist wristOnlyZ = Inr False
   \<and> (\<exists>s' evs.
        processHand True 0 wristOnlyZ createHandState ''left'' = Inr (s', evs)
        \<and> rawPalmZ s' = 1 / 2 \<and> scale s' = 3
        \<and> position s' = \<lparr>pos_x = 0, pos_y = 0, pos_z = 1\<rparr> \<and> isFist s' = False
        \<and> processHand True 0 (map zeroMissingZ wristOnlyZ) createHandState ''left''
            = Inr (s', evs))
   \<and> calculatePalmDepth (map zeroMissingZ wristOnlyZ) = Inr (1 / 2)
   \<and> calculateHandScale (map zeroMissingZ wristOnlyZ) = Inr 3
   \<and> calculateHandCenter (map zeroMissingZ wristOnlyZ) = Inr \<lparr>pos_x = 0, pos_y = 0, pos_z = 1\<rparr>
   \<and> detectFist (map zeroMissingZ wristOnlyZ) = Inr False
   \<and> length (take 20 wristOnlyZ) < 21
   \<and> detectFist (take 20 wristOnlyZ) = Inl TypeError
   \<and> isl (processHand True 0 (take 20 wristOnlyZ) createHandState ''left'')"
proof -
  have h: "21 \<le> length wristOnlyZ" by (simp add: wristOnlyZ_def)
  have h': "length (take 20 wristOnlyZ) < 21" by (simp add: wristOnlyZ_def)
  have m: "map zeroMissingZ wristOnlyZ =
       \<lparr>lm_x = 0, lm_y = 0, lm_z = Some 3\<rparr> # replicate 20 \<lparr>lm_x = 0, lm_y = 0, lm_z = Some 0\<rparr>"
    by (simp add: wristOnlyZ_def zeroMissingZ_def)
  note w = complete_frame_never_throws [of wristOnlyZ True 0 createHandState "''left''"]
  note w' = complete_frame_never_throws [of "take 20 wristOnlyZ" True 0 createHandState "''left''"]
  from conjunct1 [OF w] h obtain zs pd sc pos fist s' evs where
    zs: "zs = map (\<lambda>p. case lm_z p of None \<Rightarrow> 0 | Some v \<Rightarrow> v) wristOnlyZ"
    and pd: "calculatePalmDepth wristOnlyZ = Inr pd"
    and pdv: "pd = (zs ! 0 + zs ! 1 + zs ! 5 + zs ! 9 + zs ! 13 + zs ! 17) / 6"
    and sc: "calculateHandScale wristOnlyZ = Inr sc"
    and scv: "sc = sqrt ((lm_x (wristOnlyZ ! 9) - lm_x (wristOnlyZ ! 0))\<^sup>2
                 + (lm_y (wristOnlyZ ! 9) - lm_y (wristOnlyZ ! 0))\<^sup>2 + (zs ! 9 - zs ! 0)\<^sup>2)"
    and pos: "calculateHandCenter wristOnlyZ = Inr pos"
    and posv: "pos_z pos = (zs ! 0 + zs ! 5 + zs ! 17) / 3"
    and fist: "detectFist wristOnlyZ = Inr fist"
    and ph: "processHand True 0 wristOnlyZ createHandState ''left'' = Inr (s', evs)"
    and st: "rawPalmZ s' = pd" "scale s' = sc" "position s' = pos" "isFist s' = fist"
    and z: "calculatePalmDepth (map zeroMissingZ wristOnlyZ) = Inr pd"
      "calculateHandScale (map zeroMissingZ wristOnlyZ) = Inr sc"
      "calculateHandCenter (map zeroMissingZ wristOnlyZ) = Inr pos"
      "detectFist (map zeroMissingZ wristOnlyZ) = Inr fist"
      "processHand True 0 (map zeroMissingZ wristOnlyZ) createHandState ''left'' = Inr (s', evs)"
    by blast
  have pd': "pd = 1 / 2" unfolding pdv zs by (simp add: wristOnlyZ_def)
  have "sc = sqrt (3\<^sup>2)" unfolding scv zs by (simp add: wristOnlyZ_def)
  then have sc': "sc = 3" by simp
  have pz: "pos_z pos = 1" unfolding posv zs by (simp add: wristOnlyZ_def)
  have "pos_x pos = 0" "pos_y pos = 0"
    using center_explicit [of wristOnlyZ] h pos by (auto simp: wristOnlyZ_def)
  with pz have pos': "pos = \<lparr>pos_x = 0, pos_y = 0, pos_z = 1\<rparr>" by simp
  have "detectFist wristOnlyZ = Inr False"
    by (simp add: detectFist_def fingerTips_def fingerMCPs_def wristOnlyZ_def js_index_def)
  with fist have fist': "fist = False" by simp
  from conjunct2 [OF w'] h'
  have short: "detectFist (take 20 wristOnlyZ) = Inl TypeError"
    "isl (processHand True 0 (take 20 wristOnlyZ) createHandState ''left'')"
    by blast+
  show ?thesis
    using h m pd sc pos fist ph st z h' short
    unfolding pd' sc' pos' fist' by blast
qed

text \<open>
  Claim C3, as stated, fails for frames with fewer than 21 landmarks: on the empty frame
  each of the four computations throws a TypeError, on a frame of 20 landmarks fist
  detection throws, and the exception leaves \<open>processHand\<close> and \<open>update\<close>.
\<close>
theorem short_frame_throws:
  "calculatePalmDepth [] = Inl TypeError
   \<and> calculateHandScale [] = Inl TypeError
   \<and> calculateHandCenter [] = Inl TypeError
   \<and> detectFist [] = Inl TypeError
   \<and> detectFist (replicate 20 \<lparr>lm_x = 0, lm_y = 0, lm_z = Some 0\<rparr>) = Inl TypeError
   \<and> isl (processHand False 0 (replicate 20 \<lparr>lm_x = 0, lm_y = 0, lm_z = Some 0\<rparr>)
            createHandState ''left'')
   \<and> update initialTracker 0 (oneHand ''Right'' []) = Inl (TypeError, initialTracker, [])"
proof (intro conjI)
  show "calculatePalmDepth [] = Inl TypeError"
    by (simp add: calculatePalmDepth_def palmIndices_def js_index_def)
  show "calculateHandScale [] = Inl TypeError"
    by (simp add: calculateHandScale_def js_index_def)
  show "calculateHandCenter [] = Inl TypeError"
    by (simp add: calculateHandCenter_def js_index_def)
  show "detectFist [] = Inl TypeError"
    by (simp add: detectFist_def fingerTips_def fingerMCPs_def js_index_def)
  show f: "detectFist (replicate 20 \<lparr>lm_x = 0, lm_y = 0, lm_z = Some 0\<rparr>) = Inl TypeError"
    by (simp add: detectFist_def fingerTips_def fingerMCPs_def js_index_replicate)
  show "isl (processHand False 0 (replicate 20 \<lparr>lm_x = 0, lm_y = 0, lm_z = Some 0\<rparr>)
            createHandState ''left'')"
    by (simp add: processHand_def f calculatePalmDepth_def palmIndices_def
        calculateHandScale_def calculateHandCenter_def js_index_replicate)
  have "processHand False 0 [] createHandState ''left'' = Inl (TypeError, createHandState)"
    by (simp add: processHand_def calculatePalmDepth_def palmIndices_def js_index_def)
  then show "update initialTracker 0 (oneHand ''Right'' []) = Inl (TypeError, initialTracker, [])"
    by (simp add: update_def oneHand_def js_index_def initialTracker_def)
qed

lemma initialTrackerObj_eval:
  "initialTrackerObj =
     (\<lparr>leftHandState = \<lparr>depth = 0, smoothedDepth = 0, rawPalmZ = 0, scaleDepth = 0,
          rawCombinedDepth = 0, depthHistory = 0, velocityHistory = 1, historyMaxLength = 5,
          velocityHistoryMaxLength = 50, velocity = 0, scale = REFERENCE_HAND_SIZE,
          isPunching = False, punchStartTime = 0, lastPunchTime = 0, punchPower = 0,
          position = 2, isFist = False\<rparr>,
       rightHandState = \<lparr>depth = 0, smoothedDepth = 0, rawPalmZ = 0, scaleDepth = 0,
          rawCombinedDepth = 0, depthHistory = 3, velocityHistory = 4, historyMaxLength = 5,
          velocityHistoryMaxLength = 50, velocity = 0, scale = REFERENCE_HAND_SIZE,
          isPunching = False, punchStartTime = 0, lastPunchTime = 0, punchPower = 0,
          position = 5, isFist = False\<rparr>,
       onPunchDetected = False\<rparr>,
      [NumArray [], NumArray [], PosObj \<lparr>pos_x = 0, pos_y = 0, pos_z = 0\<rparr>,
       NumArray [], NumArray [], PosObj \<lparr>pos_x = 0, pos_y = 0, pos_z = 0\<rparr>])"
  by (simp add: initialTrackerObj_def createHandStateObj_def alloc_def)

lemma readTracker_initial: "readTracker (snd initialTrackerObj) (fst initialTrackerObj) = initialTracker"
  by (simp add: initialTrackerObj_eval readTracker_def readHand_def arrayAt_def posAt_def
      js_index_def initialTracker_def createHandState_def)

lemma processHand_after:
  assumes "calculatePalmDepth lm = Inr pd" and "calculateHandScale lm = Inr sc"
    and "calculateHandCenter lm = Inr pos"
  shows "afterProcess (processHand cb now lm s nm) =
     (case detectFist lm of
        Inl e \<Rightarrow> updateDepth pd sc pos s
      | Inr fist \<Rightarrow> fst (detectPunch cb now nm pos ((updateDepth pd sc pos s)\<lparr>isFist := fist\<rparr>)))"
  using assms by (simp add: processHand_def afterProcess_def split: sum.splits prod.splits)

text \<open>
  Claim C7. For a frame on which the three estimates can be computed (18 landmarks
  suffice) and any prior state \<open>s\<close>, the state that \<open>processHand\<close> leaves behind has
  scaleDepth = -(scale - 0.15) / 0.15, rawCombinedDepth = (0.6 palmDepth + 0.4
  scaleDepth) 1.5 and smoothedDepth = smoothedDepth s (1 - 0.7) + rawCombinedDepth 0.7;
  for a frame of 21 landmarks \<open>processHand\<close> returns that state.
\<close>
theorem depth_update_formula:
  assumes "18 \<le> length landmarks"
  shows "\<exists>palmDepth handScale s'.
       calculatePalmDepth landmarks = Inr palmDepth
     \<and> calculateHandScale landmarks = Inr handScale
     \<and> s' = afterProcess (processHand cb now landmarks s handName)
     \<and> scaleDepth s' = - (handScale - 0.15) / 0.15
     \<and> rawCombinedDepth s' = (0.6 * palmDepth + 0.4 * scaleDepth s') * 1.5
     \<and> smoothedDepth s' = smoothedDepth s * (1 - 0.7) + rawCombinedDepth s' * 0.7
     \<and> (21 \<le> length landmarks \<longrightarrow>
          (\<exists>evs. processHand cb now landmarks s handName = Inr (s', evs)))"
proof -
  from palm_total [OF assms] obtain pd where pd: "calculatePalmDepth landmarks = Inr pd" by blast
  from scale_total [of landmarks] assms obtain sc where sc: "calculateHandScale landmarks = Inr sc"
    by auto
  from center_total [OF assms] obtain pos where pos: "calculateHandCenter landmarks = Inr pos"
    by blast
  let ?s' = "afterProcess (processHand cb now landmarks s handName)"
  note a = processHand_after [OF pd sc pos, of cb now s handName]
  have 1: "scaleDepth ?s' = - (sc - 0.15) / 0.15"
    unfolding a
    by (simp add: detectPunch_frame updateDepth_depth_fields REFERENCE_HAND_SIZE_def split: sum.splits)
  have 2: "rawCombinedDepth ?s' = (0.6 * pd + 0.4 * scaleDepth ?s') * 1.5"
    unfolding a by (simp add: detectPunch_frame updateDepth_depth_fields split: sum.splits)
  have 3: "smoothedDepth ?s' = smoothedDepth s * (1 - 0.7) + rawCombinedDepth ?s' * 0.7"
    unfolding a
    by (simp add: detectPunch_frame updateDepth_depth_fields DEPTH_SMOOTHING_def split: sum.splits)
  have 4: "21 \<le> length landmarks \<longrightarrow>
      (\<exists>evs. processHand cb now landmarks s handName = Inr (?s', evs))"
  proof
    assume "21 \<le> length landmarks"
    from processHand_total [OF this, of cb now s handName]
    obtain r where "processHand cb now landmarks s handName = Inr r" by blast
    then have "processHand cb now landmarks s handName = Inr (?s', snd r)"
      by (simp add: afterProcess_def split: prod.splits)
    then show "\<exists>evs. processHand cb now landmarks s handName = Inr (?s', evs)" by blast
  qed
  from pd sc 1 2 3 4 show ?thesis by blast
qed

text \<open>A frame of 21 landmarks satisfies both hypotheses.\<close>
theorem depth_update_formula_witness:
  "18 \<le> length (flatHand 0 0 (- 1)) \<and> 21 \<le> length (flatHand 0 0 (- 1))
   \<and> (\<exists>palmDepth handScale s'.
       calculatePalmDepth (flatHand 0 0 (- 1)) = Inr palmDepth
     \<and> calculateHandScale (flatHand 0 0 (- 1)) = Inr handScale
     \<and> s' = afterProcess (processHand True 100 (flatHand 0 0 (- 1)) seenHand ''left'')
     \<and> scaleDepth s' = - (handScale - 0.15) / 0.15
     \<and> rawCombinedDepth s' = (0.6 * palmDepth + 0.4 * scaleDepth s') * 1.5
     \<and> smoothedDepth s' = smoothedDepth seenHand * (1 - 0.7) + rawCombinedDepth s' * 0.7
     \<and> (\<exists>evs. processHand True 100 (flatHand 0 0 (- 1)) seenHand ''left'' = Inr (s', evs)))"
proof -
  have h: "18 \<le> length (flatHand 0 0 (- 1))" and h': "21 \<le> length (flatHand 0 0 (- 1))"
    by (simp_all add: flatHand_def)
  from depth_update_formula [OF h, of True 100 seenHand "''left''"] h h' show ?thesis by blast
qed

lemma process_corrupted:
  "afterProcess (processHand False 0 (flatHand 0 0 0) (createHandState\<lparr>depthHistory := [1]\<rparr>) ''left'')
     = seenHand\<lparr>depthHistory := [1, 21 / 50], velocity := - 29 / 50,
         velocityHistory := [- 29 / 50]\<rparr>"
  by (simp add: processHand_flat hand_defs seenHand_def afterProcess_def)


text \<open>
  Claim C4. The snapshot returned by \<open>getHandStates\<close> holds the reference of the
  tracker's own depthHistory array. After the consumer pushes 1 onto the snapshot's
  depthHistory, the tracker reports the history [1] instead of [], and the next frame
  processed for that hand yields the velocity -29/50 instead of 0.
\<close>
theorem snapshot_shares_history_arrays:
  "depthHistory (left (getHandStates (readTracker (snd initialTrackerObj) (fst initialTrackerObj)))) = []
   \<and> depthHistory (left (getHandStates (readTracker
         (arrayPush (depthHistory (left (getHandStatesObj (fst initialTrackerObj)))) 1
            (snd initialTrackerObj))
         (fst initialTrackerObj)))) = [1]
   \<and> velocity (afterProcess (processHand False 0 (flatHand 0 0 0)
         (leftHandState (readTracker (snd initialTrackerObj) (fst initialTrackerObj))) ''left'')) = 0
   \<and> velocity (afterProcess (processHand False 0 (flatHand 0 0 0)
         (leftHandState (readTracker
            (arrayPush (depthHistory (left (getHandStatesObj (fst initialTrackerObj)))) 1
               (snd initialTrackerObj))
            (fst initialTrackerObj))) ''left'')) = - 29 / 50"
proof -
  have a: "leftHandState (readTracker (snd initialTrackerObj) (fst initialTrackerObj)) = createHandState"
    by (simp add: readTracker_initial initialTracker_def)
  have b: "leftHandState (readTracker
            (arrayPush (depthHistory (left (getHandStatesObj (fst initialTrackerObj)))) 1
               (snd initialTrackerObj))
            (fst initialTrackerObj)) = createHandState\<lparr>depthHistory := [1]\<rparr>"
    by (simp add: initialTrackerObj_eval getHandStatesObj_def readTracker_def
      readHand_def arrayAt_def posAt_def arrayPush_def js_index_def createHandState_def)
  have c: "afterProcess (processHand False 0 (flatHand 0 0 0) createHandState ''left'') = seenHand"
    by (simp add: processHand_flat hand_defs seenHand_def afterProcess_def)
  show ?thesis
    unfolding getHandStates_def a b c process_corrupted
    by (simp add: seenHand_def createHandState_def)
qed

end
